theory Spec2Isabelle
  imports Main "HOL-Library.Word"
begin

unbundle bit_operations_syntax

section \<open>The Go library functions the package calls\<close>

text \<open>
  A Go \<^verbatim>\<open>string\<close> is a sequence of bytes; it is modelled as \<^typ>\<open>string\<close>, a list of
  8-bit characters.  A \<^verbatim>\<open>rune\<close> is a 32-bit signed code point and is modelled as an
  integer.  The functions of this section are those of the Go standard library
  (packages unicode/utf8, unicode, strings, strconv, fmt, encoding/hex, encoding/base64
  and crypto/md5) that the package calls, at the version its go.mod names (Go 1.14).
\<close>

type_synonym rune = int

definition byte :: "char \<Rightarrow> int" where
  "byte c = of_char c"

text \<open>The conversion \<^verbatim>\<open>byte(n)\<close> keeps the low eight bits.\<close>

definition chr :: "int \<Rightarrow> char" where
  "chr n = char_of n"

definition dquote :: char where
  "dquote = CHR 0x22"

definition bslash :: char where
  "bslash = CHR 0x5C"

subsection \<open>unicode/utf8\<close>

definition RuneError :: rune where
  "RuneError = 0xFFFD"

definition isCont :: "char \<Rightarrow> bool" where
  "isCont c = (0x80 \<le> byte c \<and> byte c \<le> 0xBF)"

text \<open>
  \<^verbatim>\<open>utf8.DecodeRuneInString\<close>: the first rune of the string and its width in bytes;
  \<open>(RuneError, 1)\<close> for a byte that starts no valid encoding, \<open>(RuneError, 0)\<close> for
  the empty string.
\<close>

fun DecodeRune :: "string \<Rightarrow> rune \<times> nat" where
  "DecodeRune [] = (RuneError, 0)"
| "DecodeRune (c0 # cs) =
     (let b0 = byte c0 in
      if b0 < 0x80 then (b0, 1)
      else if 0xC2 \<le> b0 \<and> b0 \<le> 0xDF then
        (case cs of
           c1 # _ \<Rightarrow>
             if isCont c1 then ((b0 mod 32) * 64 + byte c1 mod 64, 2) else (RuneError, 1)
         | [] \<Rightarrow> (RuneError, 1))
      else if 0xE0 \<le> b0 \<and> b0 \<le> 0xEF then
        (case cs of
           c1 # c2 # _ \<Rightarrow>
             if (if b0 = 0xE0 then 0xA0 else 0x80) \<le> byte c1
                \<and> byte c1 \<le> (if b0 = 0xED then 0x9F else 0xBF) \<and> isCont c2
             then (((b0 mod 16) * 64 + byte c1 mod 64) * 64 + byte c2 mod 64, 3)
             else (RuneError, 1)
         | _ \<Rightarrow> (RuneError, 1))
      else if 0xF0 \<le> b0 \<and> b0 \<le> 0xF4 then
        (case cs of
           c1 # c2 # c3 # _ \<Rightarrow>
             if (if b0 = 0xF0 then 0x90 else 0x80) \<le> byte c1
                \<and> byte c1 \<le> (if b0 = 0xF4 then 0x8F else 0xBF) \<and> isCont c2 \<and> isCont c3
             then ((((b0 mod 8) * 64 + byte c1 mod 64) * 64 + byte c2 mod 64) * 64
                     + byte c3 mod 64, 4)
             else (RuneError, 1)
         | _ \<Rightarrow> (RuneError, 1))
      else (RuneError, 1))"

text \<open>
  The iteration \<^verbatim>\<open>for _, r := range s\<close>: the runes of \<open>s\<close> in order, each with the
  bytes it was decoded from.  A byte that starts no valid encoding yields \<open>RuneError\<close>
  and is one byte wide.
\<close>

fun runes :: "string \<Rightarrow> (rune \<times> string) list" where
  "runes [] = []"
| "runes (c # cs) =
     (case DecodeRune (c # cs) of
        (r, w) \<Rightarrow> (r, c # take (w - 1) cs) # runes (drop (w - 1) cs))"

text \<open>\<^verbatim>\<open>utf8.EncodeRune\<close>; the argument is read as \<^verbatim>\<open>uint32(r)\<close>.\<close>

definition EncodeRune :: "rune \<Rightarrow> string" where
  "EncodeRune r0 =
     (let i = r0 mod 2 ^ 32 in
      if i \<le> 0x7F then [chr i]
      else if i \<le> 0x7FF then [chr (0xC0 + i div 64), chr (0x80 + i mod 64)]
      else
        let r = (if i > 0x10FFFF \<or> (0xD800 \<le> i \<and> i \<le> 0xDFFF) then RuneError else i) in
        if r \<le> 0xFFFF
        then [chr (0xE0 + r div 4096), chr (0x80 + r div 64 mod 64), chr (0x80 + r mod 64)]
        else [chr (0xF0 + r div 262144), chr (0x80 + r div 4096 mod 64),
              chr (0x80 + r div 64 mod 64), chr (0x80 + r mod 64)])"

text \<open>\<^verbatim>\<open>(*bytes.Buffer).WriteRune\<close>, on the contents of the buffer.\<close>

definition WriteRune :: "string \<Rightarrow> rune \<Rightarrow> string" where
  "WriteRune buf r = buf @ (if r < 0x80 then [chr r] else EncodeRune r)"

subsection \<open>unicode and strings\<close>

text \<open>\<^verbatim>\<open>unicode.IsSpace\<close>: the Unicode White_Space property.\<close>

definition IsSpace :: "rune \<Rightarrow> bool" where
  "IsSpace r =
     (r \<in> set [0x09, 0x0A, 0x0B, 0x0C, 0x0D, 0x20, 0x85, 0xA0, 0x1680, 0x2028, 0x2029,
               0x202F, 0x205F, 0x3000]
      \<or> (0x2000 \<le> r \<and> r \<le> 0x200A))"

definition spaceRune :: "rune \<times> string \<Rightarrow> bool" where
  "spaceRune p = IsSpace (fst p)"

text \<open>
  \<^verbatim>\<open>strings.TrimSpace\<close>: the string without its leading and trailing white-space
  runes.
\<close>

definition TrimSpace :: "string \<Rightarrow> string" where
  "TrimSpace s =
     concat (map snd (rev (dropWhile spaceRune (rev (dropWhile spaceRune (runes s))))))"

definition HasPrefix :: "string \<Rightarrow> string \<Rightarrow> bool" where
  "HasPrefix s pre = (length pre \<le> length s \<and> take (length pre) s = pre)"

text \<open>\<^verbatim>\<open>strings.Split\<close> for a separator of one byte.\<close>

fun Split :: "string \<Rightarrow> char \<Rightarrow> string list" where
  "Split [] sep = [[]]"
| "Split (c # cs) sep =
     (if c = sep then [] # Split cs sep
      else (case Split cs sep of
              x # xs \<Rightarrow> (c # x) # xs
            | [] \<Rightarrow> [[c]]))"

fun Join :: "string list \<Rightarrow> string \<Rightarrow> string" where
  "Join [] sep = []"
| "Join [x] sep = x"
| "Join (x # y # ys) sep = x @ sep @ Join (y # ys) sep"

subsection \<open>encoding/hex, fmt and encoding/base64\<close>

definition hextable :: string where
  "hextable = ''0123456789abcdef''"

definition hexdigit :: "int \<Rightarrow> char" where
  "hexdigit n = hextable ! nat (n mod 16)"

text \<open>\<^verbatim>\<open>hex.EncodeToString\<close>: two lowercase digits for each byte.\<close>

fun hex_EncodeToString :: "string \<Rightarrow> string" where
  "hex_EncodeToString [] = []"
| "hex_EncodeToString (v # src) =
     hexdigit (byte v div 16) # hexdigit (byte v) # hex_EncodeToString src"

fun hexdigits :: "nat \<Rightarrow> int \<Rightarrow> string" where
  "hexdigits 0 v = []"
| "hexdigits (Suc k) v = hexdigits k (v div 16) @ [hexdigit v]"

text \<open>
  The verb \<^verbatim>\<open>%08x\<close> of package fmt on a \<^verbatim>\<open>uint\<close> (64 bits wide): the value in
  lowercase hexadecimal, padded with zeros on the left to a width of at least eight.
\<close>

definition fmt_08x :: "64 word \<Rightarrow> string" where
  "fmt_08x n =
     (let ds = hexdigits 16 (uint n)
      in dropWhile (\<lambda>c. c = CHR ''0'') (take 8 ds) @ drop 8 ds)"

definition encodeStd :: string where
  "encodeStd = ''ABCDEFGHIJKLMNOPQRSTUVWXYZabcdefghijklmnopqrstuvwxyz0123456789+/''"

definition b64digit :: "int \<Rightarrow> char" where
  "b64digit n = encodeStd ! nat (n mod 64)"

text \<open>\<^verbatim>\<open>base64.StdEncoding.EncodeToString\<close>, with \<open>=\<close> padding.\<close>

fun base64_EncodeToString :: "string \<Rightarrow> string" where
  "base64_EncodeToString (a # b # c # src) =
     (let v = byte a * 65536 + byte b * 256 + byte c in
      b64digit (v div 262144) # b64digit (v div 4096) # b64digit (v div 64) # b64digit v
        # base64_EncodeToString src)"
| "base64_EncodeToString [a, b] =
     (let v = byte a * 65536 + byte b * 256 in
      [b64digit (v div 262144), b64digit (v div 4096), b64digit (v div 64), CHR ''=''])"
| "base64_EncodeToString [a] =
     (let v = byte a * 65536 in
      [b64digit (v div 262144), b64digit (v div 4096), CHR ''='', CHR ''=''])"
| "base64_EncodeToString [] = []"

subsection \<open>Errors\<close>

text \<open>
  A Go \<^verbatim>\<open>error\<close> is a value.  Each constructor stands for one place that creates
  an error: \<open>ErrSyntax\<close> is \<^verbatim>\<open>strconv.ErrSyntax\<close>; \<open>ErrBadChallenge entry\<close> is
  \<^verbatim>\<open>fmt.Errorf("bad challenge '%s'", entry)\<close>; \<open>ErrDigestNotImplemented qop\<close> is
  \<^verbatim>\<open>fmt.Errorf("digest not implemented ('%s')", a.Qop)\<close>; \<open>ErrNotImplemented\<close> is
  \<^verbatim>\<open>fmt.Errorf("not implemented")\<close>; \<open>ErrTransportNil\<close> and \<open>ErrCnonceGenNil\<close> are
  the two precondition failures of \<^verbatim>\<open>RoundTrip\<close>; \<open>ErrExternal msg\<close> is an error
  that a collaborator returns (the underlying transport, a body reader); and
  \<open>PanicSliceBounds\<close> and \<open>PanicNilPointer\<close> are the run-time panics of a slice
  expression out of range and of a call through a nil pointer.
\<close>

datatype error =
    ErrSyntax
  | ErrBadChallenge string
  | ErrDigestNotImplemented string
  | ErrNotImplemented
  | ErrTransportNil
  | ErrCnonceGenNil
  | ErrExternal string
  | PanicSliceBounds
  | PanicNilPointer

subsection \<open>strconv\<close>

text \<open>
  \<^verbatim>\<open>strconv.IsPrint\<close>.  Above Latin-1 the answer comes from the Unicode tables of the
  Go release, which are a parameter \<open>tbl\<close> of the model.
\<close>

definition IsPrint :: "(rune \<Rightarrow> bool) \<Rightarrow> rune \<Rightarrow> bool" where
  "IsPrint tbl r =
     (if r \<le> 0xFF then (0x20 \<le> r \<and> r \<le> 0x7E) \<or> (0xA1 \<le> r \<and> r \<noteq> 0xAD)
      else tbl r)"

text \<open>
  \<^verbatim>\<open>appendEscapedRune\<close> of strconv for the quote \<open>"\<close>, neither ASCII-only nor
  graphic-only.
\<close>

definition escapedRune :: "(rune \<Rightarrow> bool) \<Rightarrow> rune \<Rightarrow> string" where
  "escapedRune tbl r =
     (if r = 0x22 \<or> r = 0x5C then [bslash, chr r]
      else if IsPrint tbl r then EncodeRune r
      else if r = 0x07 then [bslash, CHR ''a'']
      else if r = 0x08 then [bslash, CHR ''b'']
      else if r = 0x0C then [bslash, CHR ''f'']
      else if r = 0x0A then [bslash, CHR ''n'']
      else if r = 0x0D then [bslash, CHR ''r'']
      else if r = 0x09 then [bslash, CHR ''t'']
      else if r = 0x0B then [bslash, CHR ''v'']
      else if r < 0x20 then [bslash, CHR ''x'', hexdigit (r div 16), hexdigit r]
      else if r < 0x10000 then [bslash, CHR ''u''] @ hexdigits 4 r
      else [bslash, CHR ''U''] @ hexdigits 8 r)"

fun quoteRunes :: "(rune \<Rightarrow> bool) \<Rightarrow> (rune \<times> string) list \<Rightarrow> string" where
  "quoteRunes tbl [] = []"
| "quoteRunes tbl ((r, bs) # rs) =
     (if length bs = 1 \<and> r = RuneError
      then [bslash, CHR ''x'', hexdigit (byte (hd bs) div 16), hexdigit (byte (hd bs))]
      else escapedRune tbl r)
     @ quoteRunes tbl rs"

text \<open>\<^verbatim>\<open>strconv.Quote\<close>: a double-quoted Go string literal for \<open>s\<close>.\<close>

definition Quote :: "(rune \<Rightarrow> bool) \<Rightarrow> string \<Rightarrow> string" where
  "Quote tbl s = [dquote] @ quoteRunes tbl (runes s) @ [dquote]"

definition unhex :: "char \<Rightarrow> int option" where
  "unhex b =
     (let c = byte b in
      if 0x30 \<le> c \<and> c \<le> 0x39 then Some (c - 0x30)
      else if 0x61 \<le> c \<and> c \<le> 0x66 then Some (c - 0x61 + 10)
      else if 0x41 \<le> c \<and> c \<le> 0x46 then Some (c - 0x41 + 10)
      else None)"

fun hexvalue :: "string \<Rightarrow> int \<Rightarrow> int option" where
  "hexvalue [] v = Some v"
| "hexvalue (c # cs) v =
     (case unhex c of None \<Rightarrow> None | Some x \<Rightarrow> hexvalue cs (v * 16 + x))"

definition octdigit :: "char \<Rightarrow> int option" where
  "octdigit b = (let x = byte b - 0x30 in if x < 0 \<or> x > 7 then None else Some x)"

text \<open>The value of a 32-bit pattern read as a signed \<^verbatim>\<open>rune\<close>.\<close>

definition int32 :: "int \<Rightarrow> int" where
  "int32 v = (let m = v mod 2 ^ 32 in if m \<ge> 2 ^ 31 then m - 2 ^ 32 else m)"

text \<open>
  The part of \<^verbatim>\<open>strconv.UnquoteChar\<close> after a backslash: \<open>c\<close> is the byte that
  follows the backslash and \<open>s\<close> the rest of the string.
\<close>

definition unquoteEscape :: "char \<Rightarrow> string \<Rightarrow> char \<Rightarrow> error + (rune \<times> bool \<times> string)" where
  "unquoteEscape c s quote =
     (if c = CHR ''a'' then Inr (0x07, False, s)
      else if c = CHR ''b'' then Inr (0x08, False, s)
      else if c = CHR ''f'' then Inr (0x0C, False, s)
      else if c = CHR ''n'' then Inr (0x0A, False, s)
      else if c = CHR ''r'' then Inr (0x0D, False, s)
      else if c = CHR ''t'' then Inr (0x09, False, s)
      else if c = CHR ''v'' then Inr (0x0B, False, s)
      else if c = CHR ''x'' \<or> c = CHR ''u'' \<or> c = CHR ''U'' then
        (let n = (if c = CHR ''x'' then 2 else if c = CHR ''u'' then 4 else 8) in
         if length s < n then Inl ErrSyntax
         else (case hexvalue (take n s) 0 of
                 None \<Rightarrow> Inl ErrSyntax
               | Some v0 \<Rightarrow>
                   let v = int32 v0 in
                   if c = CHR ''x'' then Inr (v, False, drop n s)
                   else if v > 0x10FFFF then Inl ErrSyntax
                   else Inr (v, True, drop n s)))
      else if 0x30 \<le> byte c \<and> byte c \<le> 0x37 then
        (case s of
           d1 # d2 # s' \<Rightarrow>
             (case octdigit d1 of
                None \<Rightarrow> Inl ErrSyntax
              | Some x1 \<Rightarrow>
                  (case octdigit d2 of
                     None \<Rightarrow> Inl ErrSyntax
                   | Some x2 \<Rightarrow>
                       let v = ((byte c - 0x30) * 8 + x1) * 8 + x2 in
                       if v > 255 then Inl ErrSyntax else Inr (v, False, s')))
         | _ \<Rightarrow> Inl ErrSyntax)
      else if c = bslash then Inr (0x5C, False, s)
      else if c = CHR 0x27 \<or> c = dquote then
        (if c \<noteq> quote then Inl ErrSyntax else Inr (byte c, False, s))
      else Inl ErrSyntax)"

text \<open>
  \<^verbatim>\<open>strconv.UnquoteChar\<close>: the first character of an escaped string, whether it
  needs a multi-byte encoding, and the rest of the string.
\<close>

definition UnquoteChar :: "string \<Rightarrow> char \<Rightarrow> error + (rune \<times> bool \<times> string)" where
  "UnquoteChar s quote =
     (case s of
        [] \<Rightarrow> Inl ErrSyntax
      | c # s1 \<Rightarrow>
          if c = quote \<and> (quote = CHR 0x27 \<or> quote = dquote) then Inl ErrSyntax
          else if byte c \<ge> 0x80 then
            (case DecodeRune s of (r, w) \<Rightarrow> Inr (r, True, drop w s))
          else if c \<noteq> bslash then Inr (byte c, False, s1)
          else (case s1 of
                  [] \<Rightarrow> Inl ErrSyntax
                | c' # s2 \<Rightarrow> unquoteEscape c' s2 quote))"

lemma DecodeRune_width: "snd (DecodeRune s) \<le> length s"
  by (cases s) (auto simp: Let_def split: list.splits)

lemma DecodeRune_width_pos: "s \<noteq> [] \<Longrightarrow> 0 < snd (DecodeRune s)"
  by (cases s) (auto simp: Let_def split: list.splits)

lemma unquoteEscape_tail:
  "unquoteEscape c s quote = Inr (r, mb, t) \<Longrightarrow> length t \<le> length s"
  by (auto simp: unquoteEscape_def Let_def split: if_splits option.splits list.splits)

lemma UnquoteChar_tail:
  assumes "UnquoteChar s quote = Inr (r, mb, t)"
  shows "length t < length s"
proof (cases s)
  case Nil
  with assms show ?thesis by (simp add: UnquoteChar_def)
next
  case (Cons c s1)
  have w: "0 < snd (DecodeRune (c # s1))"
    by (rule DecodeRune_width_pos) simp
  consider (delim) "c = quote \<and> (quote = CHR 0x27 \<or> quote = dquote)"
    | (multi) "\<not> (c = quote \<and> (quote = CHR 0x27 \<or> quote = dquote))" "byte c \<ge> 0x80"
    | (plain) "\<not> (c = quote \<and> (quote = CHR 0x27 \<or> quote = dquote))" "\<not> byte c \<ge> 0x80"
        "c \<noteq> bslash"
    | (esc) "\<not> (c = quote \<and> (quote = CHR 0x27 \<or> quote = dquote))" "\<not> byte c \<ge> 0x80"
        "c = bslash"
    by blast
  then show ?thesis
  proof cases
    case delim
    then have "UnquoteChar (c # s1) quote = Inl ErrSyntax"
      by (simp add: UnquoteChar_def)
    with assms Cons show ?thesis by simp
  next
    case multi
    then have "UnquoteChar (c # s1) quote =
        Inr (fst (DecodeRune (c # s1)), True, drop (snd (DecodeRune (c # s1))) (c # s1))"
      by (simp add: UnquoteChar_def split: prod.splits)
    with assms Cons w show ?thesis by auto
  next
    case plain
    then have "UnquoteChar (c # s1) quote = Inr (byte c, False, s1)"
      by (simp add: UnquoteChar_def)
    with assms Cons show ?thesis by auto
  next
    case esc
    then have u: "UnquoteChar (c # s1) quote =
        (case s1 of [] \<Rightarrow> Inl ErrSyntax | c' # s2 \<Rightarrow> unquoteEscape c' s2 quote)"
      by (auto simp: UnquoteChar_def bslash_def dquote_def byte_def)
    show ?thesis
    proof (cases s1)
      case Nil
      with u assms \<open>s = c # s1\<close> show ?thesis by simp
    next
      case (Cons c' s2)
      with u assms \<open>s = c # s1\<close> have "unquoteEscape c' s2 quote = Inr (r, mb, t)"
        by simp
      from unquoteEscape_tail [OF this] Cons \<open>s = c # s1\<close> show ?thesis by simp
    qed
  qed
qed

text \<open>
  The loop of \<^verbatim>\<open>strconv.Unquote\<close> over the characters between the quotes; \<open>buf\<close> is
  the output so far.  The result is the pair that Go returns: the unquoted string and an
  error, the string being empty when there is an error.
\<close>

function unquoteLoop :: "string \<Rightarrow> char \<Rightarrow> string \<Rightarrow> string \<times> error option" where
  "unquoteLoop [] quote buf = (buf, None)"
| "unquoteLoop (c0 # cs) quote buf =
     (case UnquoteChar (c0 # cs) quote of
        Inl err \<Rightarrow> ([], Some err)
      | Inr (c, multibyte, ss) \<Rightarrow>
          if quote = CHR 0x27 \<and> ss \<noteq> [] then ([], Some ErrSyntax)
          else unquoteLoop ss quote
                 (buf @ (if c < 0x80 \<or> \<not> multibyte then [chr c] else EncodeRune c)))"
  by pat_completeness auto
termination
  by (relation "measure (\<lambda>(s, quote, buf). length s)") (auto dest: UnquoteChar_tail)

text \<open>
  \<^verbatim>\<open>strconv.Unquote\<close>: \<open>s\<close> read as a Go string literal in double quotes, single
  quotes or back quotes.
\<close>

definition Unquote :: "string \<Rightarrow> string \<times> error option" where
  "Unquote s =
     (if length s < 2 then ([], Some ErrSyntax)
      else
        let quote = hd s in
        if quote \<noteq> last s then ([], Some ErrSyntax)
        else
          let s' = butlast (tl s) in
          if quote = CHR 0x60 then
            (if CHR 0x60 \<in> set s' then ([], Some ErrSyntax)
             else (filter (\<lambda>c. c \<noteq> CHR 0x0D) s', None))
          else if quote \<noteq> dquote \<and> quote \<noteq> CHR 0x27 then ([], Some ErrSyntax)
          else if CHR 0x0A \<in> set s' then ([], Some ErrSyntax)
          else unquoteLoop s' quote [])"

subsection \<open>crypto/md5\<close>

text \<open>
  The MD5 message digest (RFC 1321), which \<^verbatim>\<open>md5.Sum\<close> computes: the message is
  padded to a multiple of 64 bytes, and each block of sixteen little-endian 32-bit words
  goes through 64 steps on a state of four 32-bit words.
\<close>

type_synonym u32 = "32 word"

type_synonym md5state = "u32 \<times> u32 \<times> u32 \<times> u32"

definition md5_K :: "u32 list" where
  "md5_K =
     [0xd76aa478, 0xe8c7b756, 0x242070db, 0xc1bdceee, 0xf57c0faf, 0x4787c62a, 0xa8304613,
      0xfd469501, 0x698098d8, 0x8b44f7af, 0xffff5bb1, 0x895cd7be, 0x6b901122, 0xfd987193,
      0xa679438e, 0x49b40821, 0xf61e2562, 0xc040b340, 0x265e5a51, 0xe9b6c7aa, 0xd62f105d,
      0x02441453, 0xd8a1e681, 0xe7d3fbc8, 0x21e1cde6, 0xc33707d6, 0xf4d50d87, 0x455a14ed,
      0xa9e3e905, 0xfcefa3f8, 0x676f02d9, 0x8d2a4c8a, 0xfffa3942, 0x8771f681, 0x6d9d6122,
      0xfde5380c, 0xa4beea44, 0x4bdecfa9, 0xf6bb4b60, 0xbebfbc70, 0x289b7ec6, 0xeaa127fa,
      0xd4ef3085, 0x04881d05, 0xd9d4d039, 0xe6db99e5, 0x1fa27cf8, 0xc4ac5665, 0xf4292244,
      0x432aff97, 0xab9423a7, 0xfc93a039, 0x655b59c3, 0x8f0ccc92, 0xffeff47d, 0x85845dd1,
      0x6fa87e4f, 0xfe2ce6e0, 0xa3014314, 0x4e0811a1, 0xf7537e82, 0xbd3af235, 0x2ad7d2bb,
      0xeb86d391]"

definition md5_S :: "nat list" where
  "md5_S =
     [7, 12, 17, 22, 7, 12, 17, 22, 7, 12, 17, 22, 7, 12, 17, 22,
      5, 9, 14, 20, 5, 9, 14, 20, 5, 9, 14, 20, 5, 9, 14, 20,
      4, 11, 16, 23, 4, 11, 16, 23, 4, 11, 16, 23, 4, 11, 16, 23,
      6, 10, 15, 21, 6, 10, 15, 21, 6, 10, 15, 21, 6, 10, 15, 21]"

definition rotl32 :: "u32 \<Rightarrow> nat \<Rightarrow> u32" where
  "rotl32 x n = push_bit n x OR drop_bit (32 - n) x"

definition md5_F :: "nat \<Rightarrow> u32 \<Rightarrow> u32 \<Rightarrow> u32 \<Rightarrow> u32" where
  "md5_F i b c d =
     (if i < 16 then (b AND c) OR (NOT b AND d)
      else if i < 32 then (d AND b) OR (NOT d AND c)
      else if i < 48 then b XOR c XOR d
      else c XOR (b OR NOT d))"

definition md5_g :: "nat \<Rightarrow> nat" where
  "md5_g i =
     (if i < 16 then i
      else if i < 32 then (5 * i + 1) mod 16
      else if i < 48 then (3 * i + 5) mod 16
      else (7 * i) mod 16)"

fun md5_rounds :: "u32 list \<Rightarrow> nat list \<Rightarrow> md5state \<Rightarrow> md5state" where
  "md5_rounds M [] st = st"
| "md5_rounds M (i # js) (a, b, c, d) =
     md5_rounds M js
       (d, b + rotl32 (md5_F i b c d + a + md5_K ! i + M ! md5_g i) (md5_S ! i), b, c)"

text \<open>
  For evaluation, the same equations with each new state word reduced to a numeral.
\<close>

lemma md5_rounds_code [code]:
  "md5_rounds M [] st = st"
  "md5_rounds M (i # js) (a, b, c, d) =
     md5_rounds M js
       (d, word_of_int (uint (b + rotl32 (md5_F i b c d + a + md5_K ! i + M ! md5_g i)
                                    (md5_S ! i))), b, c)"
  by simp_all

fun le32 :: "string \<Rightarrow> u32" where
  "le32 (b0 # b1 # b2 # b3 # _) =
     of_char b0 OR push_bit 8 (of_char b1) OR push_bit 16 (of_char b2)
       OR push_bit 24 (of_char b3)"
| "le32 _ = 0"

lemma le32_code [code]:
  "le32 (b0 # b1 # b2 # b3 # bs) =
     word_of_int (uint (of_char b0 OR push_bit 8 (of_char b1) OR push_bit 16 (of_char b2)
                          OR push_bit 24 (of_char b3) :: u32))"
  "le32 [] = 0"
  "le32 [b0] = 0"
  "le32 [b0, b1] = 0"
  "le32 [b0, b1, b2] = 0"
  by simp_all

fun block_words :: "nat \<Rightarrow> string \<Rightarrow> u32 list" where
  "block_words 0 bs = []"
| "block_words (Suc n) bs = le32 bs # block_words n (drop 4 bs)"

fun md5_block :: "md5state \<Rightarrow> string \<Rightarrow> md5state" where
  "md5_block (a0, b0, c0, d0) blk =
     (case md5_rounds (block_words 16 blk) [0..<64] (a0, b0, c0, d0) of
        (a, b, c, d) \<Rightarrow> (a0 + a, b0 + b, c0 + c, d0 + d))"

lemma md5_block_code [code]:
  "md5_block (a0, b0, c0, d0) blk =
     (case md5_rounds (block_words 16 blk) [0..<64] (a0, b0, c0, d0) of
        (a, b, c, d) \<Rightarrow>
          (word_of_int (uint (a0 + a)), word_of_int (uint (b0 + b)),
           word_of_int (uint (c0 + c)), word_of_int (uint (d0 + d))))"
  by simp

fun md5_blocks :: "nat \<Rightarrow> md5state \<Rightarrow> string \<Rightarrow> md5state" where
  "md5_blocks 0 st bs = st"
| "md5_blocks (Suc n) st bs = md5_blocks n (md5_block st (take 64 bs)) (drop 64 bs)"

definition le_bytes :: "nat \<Rightarrow> 'a::len word \<Rightarrow> string" where
  "le_bytes k w = map (\<lambda>i. chr (uint (drop_bit (8 * i) w))) [0..<k]"

definition md5_pad :: "string \<Rightarrow> string" where
  "md5_pad m =
     m @ [CHR 0x80] @ replicate ((119 - length m mod 64) mod 64) (CHR 0x00)
       @ le_bytes 8 (push_bit 3 (of_nat (length m) :: 64 word))"

definition md5_Sum :: "string \<Rightarrow> string" where
  "md5_Sum data =
     (let p = md5_pad data in
      case md5_blocks (length p div 64) (0x67452301, 0xefcdab89, 0x98badcfe, 0x10325476) p of
        (a, b, c, d) \<Rightarrow> concat (map (le_bytes 4) [a, b, c, d]))"

section \<open>The digest engine\<close>

text \<open>
  The format strings that the package hands to \<^verbatim>\<open>fmt.Sprintf\<close> and
  \<^verbatim>\<open>fmt.Errorf\<close> are constants, made of the verbs \<^verbatim>\<open>%s\<close> and \<^verbatim>\<open>%v\<close> on strings
  and \<^verbatim>\<open>%08x\<close> on a \<^verbatim>\<open>uint\<close>.  The formatted string is written out at each call:
  a string operand stands for itself, and \<open>fmt_08x\<close> renders the \<^verbatim>\<open>uint\<close>.
\<close>

subsection \<open>md5hex and newCnonce\<close>

text \<open>\<^verbatim>\<open>md5hex(format, v...)\<close>, applied to the formatted string.\<close>

definition md5hex :: "string \<Rightarrow> string" where
  "md5hex s = (let md5b = md5_Sum s in hex_EncodeToString md5b)"

text \<open>
  The source of random bytes behind \<^verbatim>\<open>crypto/rand\<close> is a list of draws; each
  \<^verbatim>\<open>rand.Read(buf)\<close> on a buffer of 16 bytes takes the next draw.  The error of
  \<^verbatim>\<open>rand.Read\<close> is not looked at by the package: when the source fails (no draw is
  left) the buffer keeps the zero bytes it was made with.
\<close>

type_synonym entropy = "string list"

definition rand_Read :: "entropy \<Rightarrow> string \<times> entropy" where
  "rand_Read e =
     (case e of
        [] \<Rightarrow> (replicate 16 (CHR 0x00), [])
      | b # e' \<Rightarrow> (take 16 (b @ replicate 16 (CHR 0x00)), e'))"

definition newCnonce :: "entropy \<Rightarrow> string \<times> entropy" where
  "newCnonce e =
     (case rand_Read e of
        (buf, e') \<Rightarrow> (let str0 = hex_EncodeToString buf in (base64_EncodeToString str0, e')))"

subsection \<open>WWWAuth, DigestInput and the challenge parser\<close>

record WWWAuth =
  Realm :: string
  Domain :: string
  Nonce :: string
  Opaque :: string
  Stale :: string
  Algorithm :: string
  Qop :: string

record DigestInput =
  Username :: string
  Password :: string
  DigestURI :: string
  NonceCount :: "64 word"
  Cnonce :: string
  Method :: string

text \<open>
  The local variables of \<^verbatim>\<open>parseDigest\<close>: \<open>state\<close>, \<open>quote\<close>, \<open>backq\<close>, the two
  buffers \<open>key\<close> and \<open>val\<close>, and the map \<open>keys\<close>.
\<close>

record pd =
  pd_state :: int
  pd_quote :: bool
  pd_backq :: int
  pd_key :: string
  pd_val :: string
  pd_keys :: "string \<rightharpoonup> string"

text \<open>
  The assignment to \<open>keys\<close> that \<^verbatim>\<open>parseDigest\<close> makes when a pair ends, in the loop
  and after it: a value that starts with a double quote is unquoted and the error of
  \<^verbatim>\<open>strconv.Unquote\<close> is dropped; any other value is trimmed.
\<close>

definition storePair :: "pd \<Rightarrow> (string \<rightharpoonup> string)" where
  "storePair p =
     (if HasPrefix (pd_val p) [dquote]
      then (let v2 = fst (Unquote (pd_val p)) in (pd_keys p)(TrimSpace (pd_key p) \<mapsto> v2))
      else (pd_keys p)(TrimSpace (pd_key p) \<mapsto> TrimSpace (pd_val p)))"

text \<open>The body of the loop of \<^verbatim>\<open>parseDigest\<close> for one rune \<open>r\<close>.\<close>

definition parseStep :: "pd \<Rightarrow> rune \<Rightarrow> pd" where
  "parseStep p r =
     (if pd_state p = 0 then
        (if r = byte CHR ''='' then p\<lparr>pd_state := 1\<rparr>
         else p\<lparr>pd_key := WriteRune (pd_key p) r\<rparr>)
      else if pd_state p = 1 then
        (if r = byte dquote then
           (let p' = (if pd_backq p mod 2 = 0 then p\<lparr>pd_quote := \<not> pd_quote p\<rparr> else p)
            in p'\<lparr>pd_val := WriteRune (pd_val p') r, pd_backq := 0\<rparr>)
         else if r = byte bslash then
           p\<lparr>pd_backq := pd_backq p + 1, pd_val := WriteRune (pd_val p) r\<rparr>
         else if r = byte CHR '','' then
           (if pd_quote p then p\<lparr>pd_val := WriteRune (pd_val p) r\<rparr>
            else p\<lparr>pd_keys := storePair p, pd_quote := False, pd_backq := 0,
                   pd_state := 0, pd_key := [], pd_val := []\<rparr>)
         else p\<lparr>pd_backq := 0, pd_val := WriteRune (pd_val p) r\<rparr>)
      else p)"

fun parseLoop :: "pd \<Rightarrow> rune list \<Rightarrow> pd" where
  "parseLoop p [] = p"
| "parseLoop p (r # rs) = parseLoop (parseStep p r) rs"

definition pd_init :: pd where
  "pd_init = \<lparr>pd_state = 0, pd_quote = False, pd_backq = 0, pd_key = [], pd_val = [],
              pd_keys = Map.empty\<rparr>"

text \<open>
  \<^verbatim>\<open>parseDigest\<close>.  The slice \<^verbatim>\<open>rawDigest[7:]\<close> panics when the string has fewer
  than seven bytes.
\<close>

definition parseDigest :: "string \<Rightarrow> error + (string \<rightharpoonup> string)" where
  "parseDigest rawDigest =
     (if length rawDigest < 7 then Inl PanicSliceBounds
      else
        let p = parseLoop pd_init (map fst (runes (drop 7 rawDigest)))
        in Inr (if pd_key p \<noteq> [] then storePair p else pd_keys p))"

text \<open>A map index \<^verbatim>\<open>m[k]\<close> of Go: the empty string when the key is absent.\<close>

definition index :: "(string \<rightharpoonup> string) \<Rightarrow> string \<Rightarrow> string" where
  "index m k = (case m k of None \<Rightarrow> [] | Some v \<Rightarrow> v)"

definition ParseWWWAuthenticate :: "string \<Rightarrow> error + WWWAuth" where
  "ParseWWWAuthenticate entry0 =
     (let entry = TrimSpace entry0 in
      if \<not> HasPrefix entry ''Digest '' then Inl (ErrBadChallenge entry)
      else
        (case parseDigest entry of
           Inl panic \<Rightarrow> Inl panic
         | Inr dkeys \<Rightarrow>
             Inr \<lparr>Realm = index dkeys ''realm'',
                  Domain = index dkeys ''domain'',
                  Nonce = index dkeys ''nonce'',
                  Opaque = index dkeys ''opaque'',
                  Stale = index dkeys ''stale'',
                  Algorithm = index dkeys ''algorithm'',
                  Qop = index dkeys ''qop''\<rparr>))"

subsection \<open>The response\<close>

definition ha1 :: "WWWAuth \<Rightarrow> DigestInput \<Rightarrow> error + string" where
  "ha1 a inp =
     (if Algorithm a = [] \<or> Algorithm a = ''MD5'' then
        Inr (md5hex (Username inp @ '':'' @ Realm a @ '':'' @ Password inp))
      else if Algorithm a = ''MD5-sess'' then
        Inr (md5hex (md5hex (Username inp @ '':'' @ Realm a @ '':'' @ Password inp)
                       @ '':'' @ Nonce a @ '':'' @ fmt_08x (NonceCount inp)))
      else Inl ErrNotImplemented)"

text \<open>
  \<^verbatim>\<open>digestAuth\<close>.  \<open>tbl\<close> is the table behind \<^verbatim>\<open>strconv.IsPrint\<close> and \<open>e\<close> the
  source of random bytes, which is read when a client nonce has to be made; the function
  returns what is left of it.
\<close>

definition digestAuth ::
  "(rune \<Rightarrow> bool) \<Rightarrow> WWWAuth \<Rightarrow> DigestInput \<Rightarrow> entropy \<Rightarrow> (error + string) \<times> entropy" where
  "digestAuth tbl a inp e =
     (case ha1 a inp of
        Inl err \<Rightarrow> (Inl err, e)
      | Inr h1 \<Rightarrow>
          let h2 = md5hex (Method inp @ '':'' @ DigestURI inp) in
          case (if Cnonce inp = [] then newCnonce e else (Cnonce inp, e)) of
            (cnonce, e') \<Rightarrow>
              let response = md5hex (h1 @ '':'' @ Nonce a @ '':'' @ fmt_08x (NonceCount inp)
                                       @ '':'' @ cnonce @ '':'' @ ''auth'' @ '':'' @ h2);
                  rvs = [];
                  rvs = rvs @ [''username='' @ Quote tbl (Username inp)];
                  rvs = rvs @ [''realm='' @ Quote tbl (Realm a)];
                  rvs = rvs @ [''nonce='' @ Quote tbl (Nonce a)];
                  rvs = rvs @ [''uri='' @ Quote tbl (DigestURI inp)];
                  rvs = rvs @ [''cnonce='' @ Quote tbl cnonce];
                  rvs = rvs @ [''nc='' @ fmt_08x (NonceCount inp)];
                  rvs = rvs @ [''qop='' @ ''auth''];
                  rvs = rvs @ [''response='' @ Quote tbl response];
                  rvs = rvs @ [''algorithm='' @ Quote tbl (Algorithm a)];
                  rvs = (if Opaque a \<noteq> [] then rvs @ [''opaque='' @ Quote tbl (Opaque a)]
                         else rvs)
              in (Inr (''Digest '' @ Join rvs '', ''), e'))"

text \<open>The loop of \<^verbatim>\<open>Digest\<close> over the offered qop values.\<close>

fun qopLoop ::
  "(rune \<Rightarrow> bool) \<Rightarrow> WWWAuth \<Rightarrow> DigestInput \<Rightarrow> entropy \<Rightarrow> string list \<Rightarrow> (error + string) \<times> entropy" where
  "qopLoop tbl a inp e [] = (Inl (ErrDigestNotImplemented (Qop a)), e)"
| "qopLoop tbl a inp e (qop # qopsplit) =
     (if qop = ''auth'' then digestAuth tbl a inp e else qopLoop tbl a inp e qopsplit)"

definition Digest ::
  "(rune \<Rightarrow> bool) \<Rightarrow> WWWAuth \<Rightarrow> DigestInput \<Rightarrow> entropy \<Rightarrow> (error + string) \<times> entropy" where
  "Digest tbl a inp0 e =
     (let inp = (if NonceCount inp0 = 0 then inp0\<lparr>NonceCount := NonceCount inp0 + 1\<rparr>
                 else inp0);
          qopsplit = Split (Qop a) CHR '',''
      in qopLoop tbl a inp e qopsplit)"

section \<open>The transports\<close>

subsection \<open>Requests, responses and the underlying transport\<close>

text \<open>
  An \<^verbatim>\<open>http.Header\<close> maps a key to its values.  The keys are in canonical form; the
  package uses the two keys \<^verbatim>\<open>WWW-Authenticate\<close> and \<^verbatim>\<open>Authorization\<close>, written here as
  in the source.
\<close>

type_synonym Header = "string \<rightharpoonup> string list"

definition Header_Get :: "Header \<Rightarrow> string \<Rightarrow> string" where
  "Header_Get h k =
     (case h k of None \<Rightarrow> [] | Some vs \<Rightarrow> (case vs of [] \<Rightarrow> [] | v # _ \<Rightarrow> v))"

definition Header_Set :: "Header \<Rightarrow> string \<Rightarrow> string \<Rightarrow> Header" where
  "Header_Set h k v = h(k \<mapsto> [v])"

definition Header_Del :: "Header \<Rightarrow> string \<Rightarrow> Header" where
  "Header_Del h k = h(k := None)"

text \<open>
  An \<^verbatim>\<open>io.ReadCloser\<close>: the bytes that are still to be read, the error (other than
  \<^verbatim>\<open>io.EOF\<close>) with which reading ends, the error of \<^verbatim>\<open>Close\<close>, and whether the
  reader is the sentinel \<^verbatim>\<open>http.NoBody\<close>.
\<close>

record ReadCloser =
  unread :: string
  readErr :: "error option"
  closeErr :: "error option"
  isNoBody :: bool

definition NoBody :: ReadCloser where
  "NoBody = \<lparr>unread = [], readErr = None, closeErr = None, isNoBody = True\<rparr>"

definition NopCloser :: "string \<Rightarrow> ReadCloser" where
  "NopCloser buf = \<lparr>unread = buf, readErr = None, closeErr = None, isNoBody = False\<rparr>"

text \<open>\<^verbatim>\<open>drainBody\<close>: the two readers and the error that it returns.\<close>

definition drainBody :: "ReadCloser \<Rightarrow> ReadCloser option \<times> ReadCloser option \<times> error option" where
  "drainBody b =
     (if isNoBody b then (Some NoBody, Some NoBody, None)
      else
        let buf = unread b; b' = b\<lparr>unread := []\<rparr> in
        case readErr b of
          Some err \<Rightarrow> (None, Some b', Some err)
        | None \<Rightarrow>
            (case closeErr b of
               Some err \<Rightarrow> (None, Some b', Some err)
             | None \<Rightarrow> (Some (NopCloser buf), Some (NopCloser buf), None)))"

text \<open>
  Of a \<^verbatim>\<open>url.URL\<close> the package reads \<^verbatim>\<open>Hostname()\<close> and \<^verbatim>\<open>RequestURI()\<close>.  Of an
  \<^verbatim>\<open>http.Request\<close> it reads and writes the fields below; \<open>req_GetBody\<close> is the pair
  that the function \<^verbatim>\<open>GetBody\<close> returns, when the request has one.
\<close>

record URL =
  url_Hostname :: string
  url_RequestURI :: string

record Request =
  req_Method :: string
  req_URL :: URL
  req_Header :: Header
  req_Body :: "ReadCloser option"
  req_GetBody :: "(ReadCloser option \<times> error option) option"

record Response =
  StatusCode :: int
  resp_Header :: Header
  resp_Body :: ReadCloser

text \<open>
  The underlying \<^verbatim>\<open>http.RoundTripper\<close> is a collaborator: from the state \<open>'w\<close> of the
  world outside the program and a request it gives a response or an error, what it does
  to the reader that is the body of the request (it reads from it and closes it), and
  the next state of the world.
\<close>

type_synonym 'w RoundTripper =
  "'w \<Rightarrow> Request \<Rightarrow> (error + Response) \<times> (ReadCloser \<Rightarrow> ReadCloser) \<times> 'w"

text \<open>
  The state that a round trip reads and changes: the world outside, the source of random
  bytes, and the entries of the cache of challenges.
\<close>

record 'w State =
  world :: 'w
  rand :: entropy
  cache :: "string \<rightharpoonup> WWWAuth"

text \<open>
  \<^verbatim>\<open>Transport\<close>; a function field of Go is \<open>None\<close> when it is nil.  The generator of
  client nonces may read and change the world outside.  \<^verbatim>\<open>CachedTransport\<close> embeds a
  \<^verbatim>\<open>Transport\<close>; its field \<open>authCache\<close> is \<open>None\<close> for a nil cache and otherwise
  holds the admission policy of the cache, which tells for a key whether a \<^verbatim>\<open>Set\<close> of
  it takes effect.
\<close>

record 'w Transport =
  t_Username :: string
  t_Password :: string
  t_Transport :: "'w RoundTripper option"
  t_CnonceGen :: "('w \<Rightarrow> string \<times> 'w) option"

record 'w CachedTransport = "'w Transport" +
  authCache :: "(string \<Rightarrow> bool) option"

type_synonym 'w result = "(error + Response) \<times> 'w State \<times> Request"

subsection \<open>The probing transport\<close>

text \<open>
  \<^verbatim>\<open>doAuthRequest\<close>: the request is cloned with a body of its own, the clone is sent,
  and the body of a 401 response is read to the end and closed.  The third component of
  the result is the original request, whose body \<^verbatim>\<open>drainBody\<close> may have replaced.
\<close>

definition doAuthRequest :: "('w, 'z) Transport_scheme \<Rightarrow> 'w State \<Rightarrow> Request \<Rightarrow> 'w result" where
  "doAuthRequest t s req =
     (let authReq = req in
      case (case req_Body req of
              None \<Rightarrow> (None, authReq, req)
            | Some body \<Rightarrow>
                (case req_GetBody req of
                   Some (b, err) \<Rightarrow> (err, authReq\<lparr>req_Body := b\<rparr>, req)
                 | None \<Rightarrow>
                     (case drainBody body of
                        (save, body', err) \<Rightarrow>
                          (err, authReq\<lparr>req_Body := save\<rparr>, req\<lparr>req_Body := body'\<rparr>)))) of
        (Some err, authReq, req) \<Rightarrow> (Inl err, s, req)
      | (None, authReq, req) \<Rightarrow>
          (case t_Transport t of
             None \<Rightarrow> (Inl PanicNilPointer, s, req)
           | Some rt \<Rightarrow>
               (case rt (world s) authReq of
                  (Inl err, rd, w) \<Rightarrow> (Inl err, s\<lparr>world := w\<rparr>, req)
                | (Inr resp, rd, w) \<Rightarrow>
                    if StatusCode resp \<noteq> 401 then (Inr resp, s\<lparr>world := w\<rparr>, req)
                    else (Inr (resp\<lparr>resp_Body := (resp_Body resp)\<lparr>unread := []\<rparr>\<rparr>),
                          s\<lparr>world := w\<rparr>, req))))"

text \<open>
  The steps that both \<^verbatim>\<open>RoundTrip\<close> functions take once they hold a challenge: the
  digest is computed, it is set as the \<^verbatim>\<open>Authorization\<close> header of the request, and
  the request is sent.
\<close>

definition authorizedRoundTrip ::
  "(rune \<Rightarrow> bool) \<Rightarrow> ('w, 'z) Transport_scheme \<Rightarrow> 'w RoundTripper \<Rightarrow> ('w \<Rightarrow> string \<times> 'w)
     \<Rightarrow> WWWAuth \<Rightarrow> 'w State \<Rightarrow> Request \<Rightarrow> 'w result" where
  "authorizedRoundTrip tbl t rt gen chal s req =
     (case gen (world s) of
        (cnonce, w1) \<Rightarrow>
          (case Digest tbl chal
                  \<lparr>Username = t_Username t, Password = t_Password t,
                   DigestURI = url_RequestURI (req_URL req), NonceCount = 0,
                   Cnonce = cnonce, Method = req_Method req\<rparr> (rand s) of
             (Inl err, e) \<Rightarrow> (Inl err, s\<lparr>world := w1, rand := e\<rparr>, req)
           | (Inr authh, e) \<Rightarrow>
               let req = req\<lparr>req_Header := Header_Set (req_Header req) ''Authorization'' authh\<rparr>
               in (case rt w1 req of
                     (Inl err, rd, w2) \<Rightarrow>
                       (Inl err, s\<lparr>world := w2, rand := e\<rparr>,
                        req\<lparr>req_Body := map_option rd (req_Body req)\<rparr>)
                   | (Inr resp, rd, w2) \<Rightarrow>
                       (Inr resp, s\<lparr>world := w2, rand := e\<rparr>,
                        req\<lparr>req_Body := map_option rd (req_Body req)\<rparr>))))"

text \<open>\<^verbatim>\<open>(*Transport).RoundTrip\<close>.\<close>

definition RoundTrip ::
  "(rune \<Rightarrow> bool) \<Rightarrow> ('w, 'z) Transport_scheme \<Rightarrow> 'w State \<Rightarrow> Request \<Rightarrow> 'w result" where
  "RoundTrip tbl t s req =
     (case t_Transport t of
        None \<Rightarrow> (Inl ErrTransportNil, s, req)
      | Some rt \<Rightarrow>
          (case t_CnonceGen t of
             None \<Rightarrow> (Inl ErrCnonceGenNil, s, req)
           | Some gen \<Rightarrow>
               (case doAuthRequest t s req of
                  (Inl err, s, req) \<Rightarrow> (Inl err, s, req)
                | (Inr resp, s, req) \<Rightarrow>
                    (case ParseWWWAuthenticate
                            (Header_Get (resp_Header resp) ''WWW-Authenticate'') of
                       Inl err \<Rightarrow> (Inl err, s, req)
                     | Inr chal \<Rightarrow> authorizedRoundTrip tbl t rt gen chal s req))))"

subsection \<open>The cached transport\<close>

definition cacheKey :: "('w, 'z) Transport_scheme \<Rightarrow> Request \<Rightarrow> string" where
  "cacheKey t req = Join [url_Hostname (req_URL req), t_Username t, t_Password t] '',''"

text \<open>
  One pass through the body of \<^verbatim>\<open>(*CachedTransport).RoundTrip\<close>.  It ends with a
  \<^verbatim>\<open>return\<close> of a response or an error, or at the call \<^verbatim>\<open>return t.RoundTrip(req)\<close>
  of the stale-cache branch, with the state and the request that the call starts from.
\<close>

datatype 'w pass = Return "'w result" | Again "'w State" Request

definition roundTripPass ::
  "(rune \<Rightarrow> bool) \<Rightarrow> 'w CachedTransport \<Rightarrow> 'w State \<Rightarrow> Request \<Rightarrow> 'w pass" where
  "roundTripPass tbl t s req =
     (case t_Transport t of
        None \<Rightarrow> Return (Inl ErrTransportNil, s, req)
      | Some rt \<Rightarrow>
          (case t_CnonceGen t of
             None \<Rightarrow> Return (Inl ErrCnonceGenNil, s, req)
           | Some gen \<Rightarrow>
               let key = cacheKey t req;
                   found = (case authCache t of
                              None \<Rightarrow> None
                            | Some admit \<Rightarrow> cache s key);
                   cached = (found \<noteq> None)
               in
               (case (case found of
                       Some chal \<Rightarrow> (Inr chal, s, req)
                     | None \<Rightarrow>
                         (case doAuthRequest t s req of
                            (Inl err, s, req) \<Rightarrow> (Inl err, s, req)
                          | (Inr resp, s, req) \<Rightarrow>
                              (case ParseWWWAuthenticate
                                      (Header_Get (resp_Header resp) ''WWW-Authenticate'') of
                                 Inl err \<Rightarrow> (Inl err, s, req)
                               | Inr chal \<Rightarrow>
                                   (Inr chal,
                                    (case authCache t of
                                       None \<Rightarrow> s
                                     | Some admit \<Rightarrow>
                                         if admit key then s\<lparr>cache := (cache s)(key \<mapsto> chal)\<rparr>
                                         else s),
                                    req)))) of
                 (Inl err, s, req) \<Rightarrow> Return (Inl err, s, req)
               | (Inr chal, s, req) \<Rightarrow>
                   (case authorizedRoundTrip tbl t rt gen chal s req of
                      (Inl err, s, req) \<Rightarrow> Return (Inl err, s, req)
                    | (Inr resp, s, req) \<Rightarrow>
                        if StatusCode resp = 401 \<and> cached then
                          (let s = s\<lparr>cache := (cache s)(key := None)\<rparr>;
                               req = req\<lparr>req_Header := Header_Del (req_Header req) ''Authorization''\<rparr>
                           in (case (req_Body req, req_GetBody req) of
                                 (Some body, Some (b, err)) \<Rightarrow>
                                   (case err of
                                      Some e \<Rightarrow> Return (Inl e, s, req\<lparr>req_Body := b\<rparr>)
                                    | None \<Rightarrow> Again s (req\<lparr>req_Body := b\<rparr>))
                               | _ \<Rightarrow> Again s req))
                        else Return (Inr resp, s, req)))))"

text \<open>Whether the lookup in the cache finds a challenge for the request.\<close>

definition cacheHit :: "'w CachedTransport \<Rightarrow> 'w State \<Rightarrow> Request \<Rightarrow> bool" where
  "cacheHit t s req =
     (case authCache t of None \<Rightarrow> False | Some admit \<Rightarrow> cache s (cacheKey t req) \<noteq> None)"

lemma authorizedRoundTrip_keeps:
  assumes "authorizedRoundTrip tbl t rt gen chal s req = (r, s', req')"
  shows "cache s' = cache s \<and> req_URL req' = req_URL req \<and> req_GetBody req' = req_GetBody req
         \<and> (req_Body req' = None \<longleftrightarrow> req_Body req = None)"
  using assms
  by (auto simp: authorizedRoundTrip_def Let_def split: prod.splits sum.splits)

text \<open>A pass that starts from a hit in the cache.\<close>

lemma roundTripPass_hit:
  assumes "t_Transport t = Some rt" and "t_CnonceGen t = Some gen"
    and "authCache t = Some admit" and "cache s (cacheKey t req) = Some chal"
  shows "roundTripPass tbl t s req =
     (case authorizedRoundTrip tbl t rt gen chal s req of
        (Inl err, s1, req1) \<Rightarrow> Return (Inl err, s1, req1)
      | (Inr resp, s1, req1) \<Rightarrow>
          if StatusCode resp = 401 then
            (let s2 = s1\<lparr>cache := (cache s1)(cacheKey t req := None)\<rparr>;
                 req2 = req1\<lparr>req_Header := Header_Del (req_Header req1) ''Authorization''\<rparr>
             in (case (req_Body req2, req_GetBody req2) of
                   (Some body, Some (b, err)) \<Rightarrow>
                     (case err of
                        Some e \<Rightarrow> Return (Inl e, s2, req2\<lparr>req_Body := b\<rparr>)
                      | None \<Rightarrow> Again s2 (req2\<lparr>req_Body := b\<rparr>))
                 | _ \<Rightarrow> Again s2 req2))
          else Return (Inr resp, s1, req1))"
  using assms by (simp add: roundTripPass_def Let_def split: prod.splits sum.splits)

text \<open>A pass that starts from a miss ends with a \<^verbatim>\<open>return\<close>.\<close>

lemma roundTripPass_miss:
  assumes "\<not> cacheHit t s req"
  shows "\<exists>r. roundTripPass tbl t s req = Return r"
proof -
  from assms have f:
    "(case authCache t of None \<Rightarrow> None | Some admit \<Rightarrow> cache s (cacheKey t req)) = None"
    by (auto simp: cacheHit_def split: option.splits)
  show ?thesis
    unfolding roundTripPass_def Let_def f
    by (auto split: option.splits prod.splits sum.splits)
qed

text \<open>The stale-cache branch is reached from a hit only, and leaves a miss behind.\<close>

lemma roundTripPass_Again:
  assumes "roundTripPass tbl t s req = Again s' req'"
  shows "cacheHit t s req \<and> \<not> cacheHit t s' req'"
proof -
  have hit: "cacheHit t s req"
    using roundTripPass_miss [of t s req tbl] assms by auto
  then obtain admit chal where
    ac: "authCache t = Some admit" and c: "cache s (cacheKey t req) = Some chal"
    by (auto simp: cacheHit_def split: option.splits)
  from assms obtain rt gen where tr: "t_Transport t = Some rt" "t_CnonceGen t = Some gen"
    by (auto simp: roundTripPass_def split: option.splits)
  obtain r s1 req1 where a: "authorizedRoundTrip tbl t rt gen chal s req = (r, s1, req1)"
    by (cases "authorizedRoundTrip tbl t rt gen chal s req") auto
  from authorizedRoundTrip_keeps [OF a] have k: "req_URL req1 = req_URL req" by simp
  from assms k have "cache s' (cacheKey t req') = None"
    unfolding roundTripPass_hit [OF tr ac c] a
    by (auto simp: Let_def cacheKey_def split: sum.splits if_splits option.splits prod.splits)
  with hit show ?thesis by (simp add: cacheHit_def split: option.splits)
qed

text \<open>
  \<^verbatim>\<open>(*CachedTransport).RoundTrip\<close>: a pass through the body, and the recursive call
  where the pass ends at it.  The recursion terminates because the call starts from a
  miss in the cache and the pass before it started from a hit.
\<close>

function CachedTransport_RoundTrip ::
  "(rune \<Rightarrow> bool) \<Rightarrow> 'w CachedTransport \<Rightarrow> 'w State \<Rightarrow> Request \<Rightarrow> 'w result" where
  "CachedTransport_RoundTrip tbl t s req =
     (case roundTripPass tbl t s req of
        Return r \<Rightarrow> r
      | Again s' req' \<Rightarrow> CachedTransport_RoundTrip tbl t s' req')"
  by pat_completeness auto
termination
  by (relation "measure (\<lambda>(tbl, t, s, req). if cacheHit t s req then 1 else 0)")
     (auto dest: roundTripPass_Again)

declare CachedTransport_RoundTrip.simps [simp del]

text \<open>
  \<^verbatim>\<open>New\<close> and \<^verbatim>\<open>NewCached\<close>, with the underlying transport \<open>rt\<close> in the place of
  \<^verbatim>\<open>http.DefaultTransport\<close>; the generator of client nonces returns the empty string.
  The cache that \<^verbatim>\<open>NewCached\<close> makes has the admission policy \<open>admit\<close>.
\<close>

definition New :: "string \<Rightarrow> string \<Rightarrow> 'w RoundTripper \<Rightarrow> 'w Transport" where
  "New username password rt =
     \<lparr>t_Username = username, t_Password = password, t_Transport = Some rt,
      t_CnonceGen = Some (\<lambda>w. ([], w))\<rparr>"

definition NewCached ::
  "string \<Rightarrow> string \<Rightarrow> 'w RoundTripper \<Rightarrow> (string \<Rightarrow> bool) \<Rightarrow> 'w CachedTransport" where
  "NewCached username password rt admit =
     \<lparr>t_Username = username, t_Password = password, t_Transport = Some rt,
      t_CnonceGen = Some (\<lambda>w. ([], w)), authCache = Some admit\<rparr>"

section \<open>The formulas of the specification and the test vector\<close>

text \<open>
  The two hashes as the specification words them: \<open>HA2 = hex(MD5(method ":" digest-uri))\<close>
  and \<open>response = hex(MD5(HA1 ":" nonce ":" nonce-count ":" cnonce ":auth:" HA2))\<close>.
\<close>

definition spec_HA2 :: "string \<Rightarrow> string \<Rightarrow> string" where
  "spec_HA2 method uri = hex_EncodeToString (md5_Sum (method @ '':'' @ uri))"

definition spec_response :: "string \<Rightarrow> string \<Rightarrow> string \<Rightarrow> string \<Rightarrow> string \<Rightarrow> string" where
  "spec_response HA1 nonce nc cnonce HA2 =
     hex_EncodeToString
       (md5_Sum (HA1 @ '':'' @ nonce @ '':'' @ nc @ '':'' @ cnonce @ '':auth:'' @ HA2))"

text \<open>
  The challenge, the request context and the expected header of \<^verbatim>\<open>TestDigestAuthMD5\<close>
  in \<^verbatim>\<open>digest_test.go\<close>.
\<close>

definition testHeader :: string where
  \<open>testHeader = ''Digest qop="auth",algorithm=MD5,realm="monero-rpc",nonce="E/fIX+Kmic5GyK1ydhPoFA==",stale=false''\<close>

definition testChallenge :: WWWAuth where
  "testChallenge =
     \<lparr>Realm = ''monero-rpc'', Domain = [], Nonce = ''E/fIX+Kmic5GyK1ydhPoFA=='', Opaque = [],
      Stale = ''false'', Algorithm = ''MD5'', Qop = ''auth''\<rparr>"

definition testInput :: DigestInput where
  "testInput =
     \<lparr>Username = ''john'', Password = ''doe'', DigestURI = ''/json_rpc'', NonceCount = 0,
      Cnonce = ''MWI5ZjNlNTc3ZDBhNTUxMWU1NGZmYmI3YzE5YWQ4ODE='', Method = ''POST''\<rparr>"

definition testExpected :: string where
  \<open>testExpected = ''Digest username="john", realm="monero-rpc", nonce="E/fIX+Kmic5GyK1ydhPoFA==", uri="/json_rpc", cnonce="MWI5ZjNlNTc3ZDBhNTUxMWU1NGZmYmI3YzE5YWQ4ODE=", nc=00000001, qop=auth, response="639f9031211b1b7b9cfbabe9e0a7fd44", algorithm="MD5"''\<close>


section \<open>Two servers for the examples\<close>

text \<open>
  The world behind the underlying transport is a counter of the requests served.  The
  first server needs no authentication and answers every request with status 200 and no
  \<^verbatim>\<open>WWW-Authenticate\<close> header.  The second rejects every request with status 401 and
  the challenge of the test vector.  Both read the body of the request to its end.
\<close>

definition readAll :: "ReadCloser \<Rightarrow> ReadCloser" where
  "readAll b = b\<lparr>unread := []\<rparr>"

definition plainServer :: "nat RoundTripper" where
  "plainServer w req =
     (Inr \<lparr>StatusCode = 200, resp_Header = Map.empty, resp_Body = NopCloser ''Hello''\<rparr>,
      readAll, Suc w)"

definition rejectingServer :: "nat RoundTripper" where
  "rejectingServer w req =
     (Inr \<lparr>StatusCode = 401, resp_Header = [''WWW-Authenticate'' \<mapsto> [testHeader]],
           resp_Body = NopCloser ''Unauthorized''\<rparr>,
      readAll, Suc w)"

definition getRequest :: Request where
  "getRequest =
     \<lparr>req_Method = ''GET'', req_URL = \<lparr>url_Hostname = ''127.0.0.1'', url_RequestURI = ''/''\<rparr>,
      req_Header = Map.empty, req_Body = None, req_GetBody = None\<rparr>"

text \<open>
  A state whose cache holds a challenge for the host and the credentials of the example,
  and the response of the rejecting server.
\<close>

definition staleState :: "nat State" where
  "staleState = \<lparr>world = 0, rand = [], cache = [''127.0.0.1,john,hello'' \<mapsto> testChallenge]\<rparr>"

definition rejected :: Response where
  "rejected = \<lparr>StatusCode = 401, resp_Header = [''WWW-Authenticate'' \<mapsto> [testHeader]],
               resp_Body = NopCloser ''Unauthorized''\<rparr>"

text \<open>
  A request with a body whose \<^verbatim>\<open>GetBody\<close> fails.
\<close>

definition postRequest :: Request where
  "postRequest =
     \<lparr>req_Method = ''POST'', req_URL = \<lparr>url_Hostname = ''127.0.0.1'', url_RequestURI = ''/''\<rparr>,
      req_Header = Map.empty, req_Body = Some (NopCloser ''{}''),
      req_GetBody = Some (None, Some (ErrExternal ''body is gone''))\<rparr>"


section \<open>Properties of the digest engine\<close>

subsection \<open>Auxiliary facts\<close>

lemma digestAuth_error:
  "digestAuth tbl a inp e = (Inl err, e') \<Longrightarrow> err = ErrNotImplemented \<and> e' = e \<and> ha1 a inp = Inl ErrNotImplemented"
  by (auto simp: digestAuth_def ha1_def Let_def split: sum.splits prod.splits if_splits)

lemma qopLoop_auth:
  "''auth'' \<in> set qs \<Longrightarrow> qopLoop tbl a inp e qs = digestAuth tbl a inp e"
  by (induction qs) auto

lemma qopLoop_noauth:
  "''auth'' \<notin> set qs \<Longrightarrow> qopLoop tbl a inp e qs = (Inl (ErrDigestNotImplemented (Qop a)), e)"
  by (induction qs) auto

lemma hexdigit_in: "hexdigit n \<in> set hextable"
proof -
  have "nat (n mod 16) < 16" by simp
  then have "nat (n mod 16) < length hextable" by (simp add: hextable_def)
  then show ?thesis unfolding hexdigit_def by (rule nth_mem)
qed

lemma hex_EncodeToString_set: "set (hex_EncodeToString s) \<subseteq> set hextable"
  by (induction s) (auto simp: hexdigit_in)

lemma hex_EncodeToString_length: "length (hex_EncodeToString s) = 2 * length s"
  by (induction s) auto

lemma md5_Sum_length: "length (md5_Sum s) = 16"
  by (simp add: md5_Sum_def Let_def le_bytes_def split: prod.splits)

lemma md5hex_lower: "set (md5hex s) \<subseteq> set hextable" "length (md5hex s) = 32"
  by (simp_all add: md5hex_def hex_EncodeToString_set hex_EncodeToString_length md5_Sum_length)

lemma hexdigits_length: "length (hexdigits k v) = k"
  by (induction k arbitrary: v) auto

lemma hexdigits_set: "set (hexdigits k v) \<subseteq> set hextable"
  by (induction k arbitrary: v) (auto simp: hexdigit_in)

lemma hexdigits_zero: "hexdigits k 0 = replicate k (CHR ''0'')"
  by (induction k) (auto simp: hexdigit_def hextable_def replicate_append_same)

lemma hexdigits_add: "hexdigits (j + k) v = hexdigits j (v div 16 ^ k) @ hexdigits k v"
proof (induction k arbitrary: v)
  case 0
  then show ?case by simp
next
  case (Suc k)
  have "v div 16 div 16 ^ k = v div 16 ^ Suc k"
    by (simp add: zdiv_zmult2_eq)
  with Suc [of "v div 16"] show ?case by simp
qed

lemma fmt_08x_set: "set (fmt_08x n) \<subseteq> set hextable"
proof -
  have "set (dropWhile (\<lambda>c. c = CHR ''0'') (take 8 (hexdigits 16 (uint n)))) \<subseteq> set (hexdigits 16 (uint n))"
    by (meson set_dropWhileD set_take_subset subsetD subsetI)
  moreover have "set (drop 8 (hexdigits 16 (uint n))) \<subseteq> set (hexdigits 16 (uint n))"
    by (rule set_drop_subset)
  ultimately show ?thesis
    using hexdigits_set [of 16 "uint n"] by (auto simp: fmt_08x_def Let_def)
qed

lemma fmt_08x_small:
  assumes "uint n < 2 ^ 32"
  shows "fmt_08x n = hexdigits 8 (uint n)"
proof -
  have z: "uint n div 16 ^ 8 = 0"
    using assms by (simp add: div_pos_pos_trivial)
  have "hexdigits (8 + 8) (uint n) = hexdigits 8 (uint n div 16 ^ 8) @ hexdigits 8 (uint n)"
    by (rule hexdigits_add)
  moreover have "hexdigits 8 (uint n div 16 ^ 8) = replicate 8 (CHR ''0'')"
    by (simp only: z hexdigits_zero)
  ultimately have "hexdigits 16 (uint n) = replicate 8 (CHR ''0'') @ hexdigits 8 (uint n)"
    by simp
  then show ?thesis
    by (simp add: fmt_08x_def Let_def hexdigits_length)
qed

lemma fmt_08x_width: "uint n < 2 ^ 32 \<Longrightarrow> length (fmt_08x n) = 8"
  by (simp add: fmt_08x_small hexdigits_length)

lemma fmt_08x_min: "8 \<le> length (fmt_08x n)"
  by (simp add: fmt_08x_def Let_def hexdigits_length)

lemma fmt_08x_one: "fmt_08x 1 = ''00000001''"
  by code_simp


lemma byte_bounds: "0 \<le> byte c" "byte c < 256"
proof -
  have "byte c = byte c mod 256" by (simp add: byte_def)
  then show "0 \<le> byte c" "byte c < 256"
    by (metis pos_mod_sign zero_less_numeral, metis pos_mod_bound zero_less_numeral)
qed

lemma byte_eq_iff: "byte c = byte d \<longleftrightarrow> c = d"
  by (simp add: byte_def)

lemma chr_byte: "chr (byte c) = c"
  by (simp add: chr_def byte_def)

lemma runes_ascii: "\<forall>c\<in>set s. byte c < 0x80 \<Longrightarrow> runes s = map (\<lambda>c. (byte c, [c])) s"
  by (induction s) (auto simp: Let_def)

text \<open>
  A printable ASCII character other than the double quote and the backslash: these are
  the characters that \<^verbatim>\<open>strconv.Quote\<close> copies unchanged.
\<close>

definition plain :: "char \<Rightarrow> bool" where
  "plain c = (0x20 \<le> byte c \<and> byte c \<le> 0x7E \<and> c \<noteq> dquote \<and> c \<noteq> bslash)"

lemma escapedRune_plain:
  assumes "plain c"
  shows "escapedRune tbl (byte c) = [c]"
proof -
  from assms have r: "0x20 \<le> byte c" "byte c \<le> 0x7E" and q: "c \<noteq> dquote" "c \<noteq> bslash"
    by (simp_all add: plain_def)
  have "byte dquote = 0x22" "byte bslash = 0x5C"
    by (simp_all add: byte_def dquote_def bslash_def)
  with q have "byte c \<noteq> 0x22" "byte c \<noteq> 0x5C"
    by (metis byte_eq_iff)+
  moreover from r have "IsPrint tbl (byte c)" by (simp add: IsPrint_def)
  moreover from r have "EncodeRune (byte c) = [c]"
    by (simp add: EncodeRune_def Let_def chr_byte)
  ultimately show ?thesis by (simp add: escapedRune_def)
qed

lemma quoteRunes_plain:
  "\<forall>c\<in>set s. plain c \<Longrightarrow> quoteRunes tbl (map (\<lambda>c. (byte c, [c])) s) = s"
proof (induction s)
  case Nil
  then show ?case by simp
next
  case (Cons c s)
  then have "plain c" by simp
  then have "byte c \<noteq> RuneError" by (simp add: plain_def RuneError_def)
  with Cons \<open>plain c\<close> show ?case by (simp add: escapedRune_plain)
qed

lemma Quote_plain:
  assumes "\<forall>c\<in>set s. plain c"
  shows "Quote tbl s = [dquote] @ s @ [dquote]"
proof -
  from assms have "\<forall>c\<in>set s. byte c < 0x80" by (auto simp: plain_def)
  then have "runes s = map (\<lambda>c. (byte c, [c])) s" by (rule runes_ascii)
  with assms show ?thesis by (simp add: Quote_def quoteRunes_plain)
qed

subsection \<open>The test vector\<close>

lemma test_parse: "ParseWWWAuthenticate testHeader = Inr testChallenge"
  by code_simp

lemma test_ha1: "md5hex ''john:monero-rpc:doe'' = ''c91259c4a966a4e672be21676d28ea02''"
  by code_simp

lemma test_ha2: "md5hex ''POST:/json_rpc'' = ''bf2d6379487ec4f98e0b54b49078caa2''"
  by code_simp

lemma test_response:
  "md5hex ''c91259c4a966a4e672be21676d28ea02:E/fIX+Kmic5GyK1ydhPoFA==:00000001:MWI5ZjNlNTc3ZDBhNTUxMWU1NGZmYmI3YzE5YWQ4ODE=:auth:bf2d6379487ec4f98e0b54b49078caa2''
     = ''639f9031211b1b7b9cfbabe9e0a7fd44''"
  by code_simp

lemma plain_chars:
  "\<forall>c\<in>set ''john''. plain c"
  "\<forall>c\<in>set ''monero-rpc''. plain c"
  "\<forall>c\<in>set ''E/fIX+Kmic5GyK1ydhPoFA==''. plain c"
  "\<forall>c\<in>set ''/json_rpc''. plain c"
  "\<forall>c\<in>set ''MWI5ZjNlNTc3ZDBhNTUxMWU1NGZmYmI3YzE5YWQ4ODE=''. plain c"
  "\<forall>c\<in>set ''639f9031211b1b7b9cfbabe9e0a7fd44''. plain c"
  "\<forall>c\<in>set ''MD5''. plain c"
  by (simp_all add: plain_def byte_def dquote_def bslash_def)

lemma test_digest: "Digest tbl testChallenge testInput e = (Inr testExpected, e)"
  by (simp add: Digest_def testChallenge_def testInput_def qopLoop_auth digestAuth_def ha1_def
      Let_def fmt_08x_one test_ha1 test_ha2 test_response Quote_plain plain_chars
      testExpected_def dquote_def)

subsection \<open>The claims about the engine\<close>

text \<open>
  Claim C6.  \<^verbatim>\<open>Digest\<close> splits the qop field of the challenge on \<open>,\<close> and fails with
  the error "digest not implemented" exactly when none of the offered values is the
  string \<open>auth\<close>.  An empty qop field and a qop field that offers only \<open>auth-int\<close> both
  fail with this error, and no header is produced.
\<close>

theorem unsupported_qop_iff:
  "((\<exists>q. fst (Digest tbl a inp e) = Inl (ErrDigestNotImplemented q))
      \<longleftrightarrow> ''auth'' \<notin> set (Split (Qop a) CHR '',''))
   \<and> Digest tbl (a\<lparr>Qop := []\<rparr>) inp e = (Inl (ErrDigestNotImplemented []), e)
   \<and> Digest tbl (a\<lparr>Qop := ''auth-int''\<rparr>) inp e = (Inl (ErrDigestNotImplemented ''auth-int''), e)"
proof (intro conjI)
  show "(\<exists>q. fst (Digest tbl a inp e) = Inl (ErrDigestNotImplemented q))
      \<longleftrightarrow> ''auth'' \<notin> set (Split (Qop a) CHR '','')"
  proof (cases "''auth'' \<in> set (Split (Qop a) CHR '','')")
    case True
    define inp' where "inp' = (if NonceCount inp = 0 then inp\<lparr>NonceCount := NonceCount inp + 1\<rparr> else inp)"
    from True have d: "Digest tbl a inp e = digestAuth tbl a inp' e"
      by (simp add: Digest_def Let_def qopLoop_auth inp'_def)
    have "fst (digestAuth tbl a inp' e) \<noteq> Inl (ErrDigestNotImplemented q)" for q
      using digestAuth_error [of tbl a inp' e "ErrDigestNotImplemented q" "snd (digestAuth tbl a inp' e)"]
      by (cases "digestAuth tbl a inp' e") auto
    with True d show ?thesis by simp
  next
    case False
    then show ?thesis by (simp add: Digest_def Let_def qopLoop_noauth)
  qed
  show "Digest tbl (a\<lparr>Qop := []\<rparr>) inp e = (Inl (ErrDigestNotImplemented []), e)"
    by (simp add: Digest_def Let_def)
  show "Digest tbl (a\<lparr>Qop := ''auth-int''\<rparr>) inp e = (Inl (ErrDigestNotImplemented ''auth-int''), e)"
    by (simp add: Digest_def Let_def)
qed

text \<open>
  Claim C5.  For the algorithm \<open>""\<close> or \<open>MD5\<close>, HA1 is
  \<open>hex(MD5(username ":" realm ":" password))\<close>; for \<open>MD5-sess\<close> it is
  \<open>hex(MD5(hex(MD5(username ":" realm ":" password)) ":" nonce ":" nonce-count))\<close>; for any
  other algorithm \<^verbatim>\<open>ha1\<close> fails with the error "not implemented", and so does
  \<^verbatim>\<open>Digest\<close> on the qop=auth path, instead of producing a header.  The nonce-count is
  rendered by the verb \<^verbatim>\<open>%08x\<close>: lowercase hexadecimal digits, eight of them for every
  count below \<open>2^32\<close>.
\<close>

theorem ha1_by_algorithm:
  "(Algorithm a = [] \<or> Algorithm a = ''MD5'' \<longrightarrow>
      ha1 a inp = Inr (hex_EncodeToString (md5_Sum (Username inp @ '':'' @ Realm a @ '':'' @ Password inp))))
   \<and> (Algorithm a = ''MD5-sess'' \<longrightarrow>
      ha1 a inp =
        Inr (hex_EncodeToString (md5_Sum
               (hex_EncodeToString (md5_Sum (Username inp @ '':'' @ Realm a @ '':'' @ Password inp))
                  @ '':'' @ Nonce a @ '':'' @ fmt_08x (NonceCount inp)))))
   \<and> (Algorithm a \<noteq> [] \<and> Algorithm a \<noteq> ''MD5'' \<and> Algorithm a \<noteq> ''MD5-sess'' \<longrightarrow>
      ha1 a inp = Inl ErrNotImplemented
      \<and> (''auth'' \<in> set (Split (Qop a) CHR '','') \<longrightarrow> Digest tbl a inp e = (Inl ErrNotImplemented, e)))
   \<and> set (fmt_08x (NonceCount inp)) \<subseteq> set ''0123456789abcdef''
   \<and> (uint (NonceCount inp) < 2 ^ 32 \<longrightarrow> length (fmt_08x (NonceCount inp)) = 8)"
proof (intro conjI impI)
  assume "Algorithm a = [] \<or> Algorithm a = ''MD5''"
  then show "ha1 a inp = Inr (hex_EncodeToString (md5_Sum (Username inp @ '':'' @ Realm a @ '':'' @ Password inp)))"
    by (auto simp: ha1_def md5hex_def)
next
  assume "Algorithm a = ''MD5-sess''"
  then show "ha1 a inp =
        Inr (hex_EncodeToString (md5_Sum
               (hex_EncodeToString (md5_Sum (Username inp @ '':'' @ Realm a @ '':'' @ Password inp))
                  @ '':'' @ Nonce a @ '':'' @ fmt_08x (NonceCount inp))))"
    by (simp add: ha1_def md5hex_def)
next
  assume other: "Algorithm a \<noteq> [] \<and> Algorithm a \<noteq> ''MD5'' \<and> Algorithm a \<noteq> ''MD5-sess''"
  then show "ha1 a inp = Inl ErrNotImplemented" by (simp add: ha1_def)
  assume "''auth'' \<in> set (Split (Qop a) CHR '','')"
  with other show "Digest tbl a inp e = (Inl ErrNotImplemented, e)"
    by (simp add: Digest_def Let_def qopLoop_auth digestAuth_def ha1_def)
next
  show "set (fmt_08x (NonceCount inp)) \<subseteq> set ''0123456789abcdef''"
    using fmt_08x_set [of "NonceCount inp"] by (simp add: hextable_def)
next
  assume "uint (NonceCount inp) < 2 ^ 32"
  then show "length (fmt_08x (NonceCount inp)) = 8" by (rule fmt_08x_width)
qed

theorem ha1_by_algorithm_witness:
  "ha1 testChallenge testInput = Inr (hex_EncodeToString (md5_Sum ''john:monero-rpc:doe''))
   \<and> ha1 (testChallenge\<lparr>Algorithm := ''MD5-sess''\<rparr>) (testInput\<lparr>NonceCount := 1\<rparr>) =
       Inr (hex_EncodeToString (md5_Sum
              (hex_EncodeToString (md5_Sum ''john:monero-rpc:doe'')
                 @ '':E/fIX+Kmic5GyK1ydhPoFA==:00000001'')))
   \<and> Digest (\<lambda>r. False) (testChallenge\<lparr>Algorithm := ''SHA-256''\<rparr>) testInput [] = (Inl ErrNotImplemented, [])
   \<and> length (fmt_08x (NonceCount (testInput\<lparr>NonceCount := 1\<rparr>))) = 8"
  using ha1_by_algorithm [of testChallenge testInput "\<lambda>r. False" "[]"]
    ha1_by_algorithm [of "testChallenge\<lparr>Algorithm := ''MD5-sess''\<rparr>" "testInput\<lparr>NonceCount := 1\<rparr>" "\<lambda>r. False" "[]"]
    ha1_by_algorithm [of "testChallenge\<lparr>Algorithm := ''SHA-256''\<rparr>" testInput "\<lambda>r. False" "[]"]
  by (simp add: testChallenge_def testInput_def fmt_08x_one)

text \<open>
  Claim C9.  With a non-empty client nonce the engine does not read the source of random
  bytes: two runs on the same challenge and request context give the same result,
  whatever the source holds, and leave the source as it was.  Every hash value (HA1,
  HA2 and the response are all made by \<^verbatim>\<open>md5hex\<close>) consists of lowercase hexadecimal
  digits.
\<close>

theorem digest_deterministic:
  assumes "Cnonce inp \<noteq> []"
  shows "fst (Digest tbl a inp e1) = fst (Digest tbl a inp e2)
         \<and> snd (Digest tbl a inp e1) = e1
         \<and> set (md5hex s) \<subseteq> set ''0123456789abcdef''
         \<and> (\<forall>h. ha1 a inp = Inr h \<longrightarrow> set h \<subseteq> set ''0123456789abcdef'')"
proof -
  define inp' where "inp' = (if NonceCount inp = 0 then inp\<lparr>NonceCount := NonceCount inp + 1\<rparr> else inp)"
  have c: "Cnonce inp' \<noteq> []" using assms by (simp add: inp'_def)
  have da: "digestAuth tbl a inp' e = (fst (digestAuth tbl a inp' []), e)" for e
    using c by (simp add: digestAuth_def Let_def split: sum.splits)
  have "Digest tbl a inp e = (fst (Digest tbl a inp []), e)" for e
  proof (cases "''auth'' \<in> set (Split (Qop a) CHR '','')")
    case True
    then have "Digest tbl a inp e = digestAuth tbl a inp' e" for e
      by (simp add: Digest_def Let_def qopLoop_auth inp'_def)
    with da show ?thesis by metis
  next
    case False
    then show ?thesis by (simp add: Digest_def Let_def qopLoop_noauth)
  qed
  then have "fst (Digest tbl a inp e1) = fst (Digest tbl a inp e2)" "snd (Digest tbl a inp e1) = e1"
    by (metis fst_conv, metis snd_conv)
  moreover have "set (md5hex s) \<subseteq> set ''0123456789abcdef''" for s
    using md5hex_lower(1) [of s] by (simp add: hextable_def)
  moreover from this have "\<forall>h. ha1 a inp = Inr h \<longrightarrow> set h \<subseteq> set ''0123456789abcdef''"
    by (auto simp: ha1_def split: if_splits)
  ultimately show ?thesis by blast
qed

theorem digest_deterministic_witness:
  "Cnonce testInput \<noteq> []
   \<and> fst (Digest (\<lambda>r. False) testChallenge testInput [''0123456789abcdef'']) =
     fst (Digest (\<lambda>r. False) testChallenge testInput [])
   \<and> snd (Digest (\<lambda>r. False) testChallenge testInput [''0123456789abcdef'']) = [''0123456789abcdef'']
   \<and> set (md5hex ''12345'') \<subseteq> set ''0123456789abcdef''"
  using digest_deterministic [of testInput "\<lambda>r. False" testChallenge "[''0123456789abcdef'']" "[]" "''12345''"]
  by (simp add: testInput_def)

text \<open>The header of the qop=auth path, written out.\<close>

lemma Digest_auth_path:
  assumes auth: "''auth'' \<in> set (Split (Qop a) CHR '','')"
    and nc: "nc = (if NonceCount inp = 0 then 1 else NonceCount inp)"
    and h1: "ha1 a (inp\<lparr>NonceCount := nc\<rparr>) = Inr h1"
    and cn: "cn = (if Cnonce inp = [] then newCnonce e else (Cnonce inp, e))"
  shows "Digest tbl a inp e =
     (Inr (''Digest username='' @ Quote tbl (Username inp)
           @ '', realm='' @ Quote tbl (Realm a)
           @ '', nonce='' @ Quote tbl (Nonce a)
           @ '', uri='' @ Quote tbl (DigestURI inp)
           @ '', cnonce='' @ Quote tbl (fst cn)
           @ '', nc='' @ fmt_08x nc
           @ '', qop=auth''
           @ '', response='' @ Quote tbl (md5hex (h1 @ '':'' @ Nonce a @ '':'' @ fmt_08x nc @ '':''
                                             @ fst cn @ '':auth:''
                                             @ md5hex (Method inp @ '':'' @ DigestURI inp)))
           @ '', algorithm='' @ Quote tbl (Algorithm a)
           @ (if Opaque a \<noteq> [] then '', opaque='' @ Quote tbl (Opaque a) else [])),
      snd cn)"
proof -
  define inp' where "inp' = (if NonceCount inp = 0 then inp\<lparr>NonceCount := NonceCount inp + 1\<rparr> else inp)"
  have i: "inp' = inp\<lparr>NonceCount := nc\<rparr>"
    by (simp add: inp'_def nc)
  from auth have d: "Digest tbl a inp e = digestAuth tbl a inp' e"
    by (simp add: Digest_def Let_def qopLoop_auth inp'_def)
  show ?thesis
    unfolding d i using h1
    by (simp add: digestAuth_def Let_def cn split: prod.splits)
qed

text \<open>
  Claim C7.  On the qop=auth path the header value is \<open>Digest\<close> followed by the fields
  username, realm, nonce, uri, cnonce, nc, qop=auth, response and algorithm in this
  order, separated by a comma and a space, with the field opaque appended exactly when
  the opaque field of the challenge is not empty.  A nonce-count of zero is replaced by
  one before anything is computed, so that nc is \<open>00000001\<close>; nc has eight digits for
  every count below \<open>2^32\<close>.  The quoted values are written by \<^verbatim>\<open>strconv.Quote\<close>.
\<close>

theorem authorization_header_layout:
  assumes "''auth'' \<in> set (Split (Qop a) CHR '','')"
    and "nc = (if NonceCount inp = 0 then 1 else NonceCount inp)"
    and "ha1 a (inp\<lparr>NonceCount := nc\<rparr>) = Inr h1"
    and "cn = (if Cnonce inp = [] then newCnonce e else (Cnonce inp, e))"
  shows "Digest tbl a inp e =
     (Inr (''Digest username='' @ Quote tbl (Username inp)
           @ '', realm='' @ Quote tbl (Realm a)
           @ '', nonce='' @ Quote tbl (Nonce a)
           @ '', uri='' @ Quote tbl (DigestURI inp)
           @ '', cnonce='' @ Quote tbl (fst cn)
           @ '', nc='' @ fmt_08x nc
           @ '', qop=auth''
           @ '', response='' @ Quote tbl (md5hex (h1 @ '':'' @ Nonce a @ '':'' @ fmt_08x nc @ '':''
                                             @ fst cn @ '':auth:''
                                             @ md5hex (Method inp @ '':'' @ DigestURI inp)))
           @ '', algorithm='' @ Quote tbl (Algorithm a)
           @ (if Opaque a \<noteq> [] then '', opaque='' @ Quote tbl (Opaque a) else [])),
      snd cn)
    \<and> (NonceCount inp = 0 \<longrightarrow> fmt_08x nc = ''00000001'')
    \<and> (uint nc < 2 ^ 32 \<longrightarrow> length (fmt_08x nc) = 8)"
  using Digest_auth_path [OF assms] assms(2) by (simp add: fmt_08x_one fmt_08x_width)

theorem authorization_header_layout_witness:
  "''auth'' \<in> set (Split (Qop testChallenge) CHR '','')
   \<and> Digest (\<lambda>r. False) (testChallenge\<lparr>Opaque := ''xyz''\<rparr>) testInput [] =
     (Inr (''Digest username='' @ Quote (\<lambda>r. False) ''john''
           @ '', realm='' @ Quote (\<lambda>r. False) ''monero-rpc''
           @ '', nonce='' @ Quote (\<lambda>r. False) ''E/fIX+Kmic5GyK1ydhPoFA==''
           @ '', uri='' @ Quote (\<lambda>r. False) ''/json_rpc''
           @ '', cnonce='' @ Quote (\<lambda>r. False) ''MWI5ZjNlNTc3ZDBhNTUxMWU1NGZmYmI3YzE5YWQ4ODE=''
           @ '', nc=00000001''
           @ '', qop=auth''
           @ '', response='' @ Quote (\<lambda>r. False) (md5hex (md5hex ''john:monero-rpc:doe'' @ '':'' @ ''E/fIX+Kmic5GyK1ydhPoFA=='' @ '':'' @ ''00000001'' @ '':''
                                             @ ''MWI5ZjNlNTc3ZDBhNTUxMWU1NGZmYmI3YzE5YWQ4ODE='' @ '':auth:''
                                             @ md5hex ''POST:/json_rpc''))
           @ '', algorithm='' @ Quote (\<lambda>r. False) ''MD5''
           @ '', opaque='' @ Quote (\<lambda>r. False) ''xyz''),
      [])
   \<and> length (fmt_08x 1) = 8"
  using authorization_header_layout [of "testChallenge\<lparr>Opaque := ''xyz''\<rparr>" 1 testInput "md5hex ''john:monero-rpc:doe''"
      "(Cnonce testInput, [])" "[]" "\<lambda>r. False"]
  by (simp add: testChallenge_def testInput_def ha1_def fmt_08x_one)

text \<open>
  Claim C3.  On the qop=auth path the header that \<^verbatim>\<open>digestAuth\<close> produces carries, in
  its response field, the hash \<open>hex(MD5(HA1 ":" nonce ":" nonce-count ":" cnonce ":auth:"
  HA2))\<close> with \<open>HA2 = hex(MD5(method ":" digest-uri))\<close>, where cnonce is the client
  nonce of the request context or, when that is empty, a fresh one.  For the challenge and
  the request context of the test of the package, the response hash is
  \<open>639f9031211b1b7b9cfbabe9e0a7fd44\<close> and the header is the one the test expects.
\<close>

theorem response_hash_formula:
  "(ha1 a inp = Inr h1 \<and> cn = (if Cnonce inp = [] then fst (newCnonce e) else Cnonce inp) \<longrightarrow>
      (\<exists>pre post. fst (digestAuth tbl a inp e) =
         Inr (pre @ ''response=''
                @ Quote tbl (spec_response h1 (Nonce a) (fmt_08x (NonceCount inp)) cn
                               (spec_HA2 (Method inp) (DigestURI inp)))
                @ post)))
   \<and> ParseWWWAuthenticate testHeader = Inr testChallenge
   \<and> Digest tbl testChallenge testInput e = (Inr testExpected, e)
   \<and> spec_HA2 ''POST'' ''/json_rpc'' = ''bf2d6379487ec4f98e0b54b49078caa2''
   \<and> spec_response ''c91259c4a966a4e672be21676d28ea02'' ''E/fIX+Kmic5GyK1ydhPoFA=='' ''00000001''
        ''MWI5ZjNlNTc3ZDBhNTUxMWU1NGZmYmI3YzE5YWQ4ODE='' ''bf2d6379487ec4f98e0b54b49078caa2''
      = ''639f9031211b1b7b9cfbabe9e0a7fd44''"
proof (intro conjI impI)
  assume h: "ha1 a inp = Inr h1 \<and> cn = (if Cnonce inp = [] then fst (newCnonce e) else Cnonce inp)"
  let ?r = "Quote tbl (spec_response h1 (Nonce a) (fmt_08x (NonceCount inp)) cn
                               (spec_HA2 (Method inp) (DigestURI inp)))"
  let ?pre = "''Digest username='' @ Quote tbl (Username inp)
           @ '', realm='' @ Quote tbl (Realm a)
           @ '', nonce='' @ Quote tbl (Nonce a)
           @ '', uri='' @ Quote tbl (DigestURI inp)
           @ '', cnonce='' @ Quote tbl cn
           @ '', nc='' @ fmt_08x (NonceCount inp)
           @ '', qop=auth, ''"
  let ?post = "'', algorithm='' @ Quote tbl (Algorithm a)
           @ (if Opaque a \<noteq> [] then '', opaque='' @ Quote tbl (Opaque a) else [])"
  from h have "fst (digestAuth tbl a inp e) = Inr (?pre @ ''response='' @ ?r @ ?post)"
    by (simp add: digestAuth_def Let_def spec_response_def spec_HA2_def md5hex_def
        split: prod.splits)
  then show "\<exists>pre post. fst (digestAuth tbl a inp e) = Inr (pre @ ''response='' @ ?r @ post)"
    by blast
next
  show "ParseWWWAuthenticate testHeader = Inr testChallenge" by (rule test_parse)
  show "Digest tbl testChallenge testInput e = (Inr testExpected, e)" by (rule test_digest)
  show "spec_HA2 ''POST'' ''/json_rpc'' = ''bf2d6379487ec4f98e0b54b49078caa2''"
    using test_ha2 by (simp add: spec_HA2_def md5hex_def)
  show "spec_response ''c91259c4a966a4e672be21676d28ea02'' ''E/fIX+Kmic5GyK1ydhPoFA=='' ''00000001''
        ''MWI5ZjNlNTc3ZDBhNTUxMWU1NGZmYmI3YzE5YWQ4ODE='' ''bf2d6379487ec4f98e0b54b49078caa2''
      = ''639f9031211b1b7b9cfbabe9e0a7fd44''"
    using test_response by (simp add: spec_response_def md5hex_def)
qed

theorem response_hash_formula_witness:
  "ha1 testChallenge (testInput\<lparr>NonceCount := 1\<rparr>) = Inr ''c91259c4a966a4e672be21676d28ea02''
   \<and> (\<exists>pre post. fst (digestAuth (\<lambda>r. False) testChallenge (testInput\<lparr>NonceCount := 1\<rparr>) []) =
         Inr (pre @ ''response='' @ Quote (\<lambda>r. False) ''639f9031211b1b7b9cfbabe9e0a7fd44'' @ post))"
proof -
  have h: "ha1 testChallenge (testInput\<lparr>NonceCount := 1\<rparr>) = Inr ''c91259c4a966a4e672be21676d28ea02''"
    by (simp add: ha1_def testChallenge_def testInput_def test_ha1)
  have c: "Cnonce testInput = (if Cnonce (testInput\<lparr>NonceCount := 1\<rparr>) = [] then fst (newCnonce [])
             else Cnonce (testInput\<lparr>NonceCount := 1\<rparr>))"
    by (simp add: testInput_def)
  from response_hash_formula [where a = testChallenge and inp = "testInput\<lparr>NonceCount := 1\<rparr>"
      and ?h1.0 = "''c91259c4a966a4e672be21676d28ea02''" and cn = "Cnonce testInput" and e = "[]"
      and tbl = "\<lambda>r. False"] h c
  have "\<exists>pre post. fst (digestAuth (\<lambda>r. False) testChallenge (testInput\<lparr>NonceCount := 1\<rparr>) []) =
         Inr (pre @ ''response='' @ Quote (\<lambda>r. False)
               (spec_response ''c91259c4a966a4e672be21676d28ea02'' (Nonce testChallenge)
                  (fmt_08x (NonceCount (testInput\<lparr>NonceCount := 1\<rparr>))) (Cnonce testInput)
                  (spec_HA2 (Method (testInput\<lparr>NonceCount := 1\<rparr>)) (DigestURI (testInput\<lparr>NonceCount := 1\<rparr>)))) @ post)"
    by blast
  moreover from response_hash_formula [where a = testChallenge and inp = "testInput\<lparr>NonceCount := 1\<rparr>"
      and ?h1.0 = "''c91259c4a966a4e672be21676d28ea02''" and cn = "Cnonce testInput" and e = "[]"
      and tbl = "\<lambda>r. False"]
  have "spec_response ''c91259c4a966a4e672be21676d28ea02'' (Nonce testChallenge)
                  (fmt_08x (NonceCount (testInput\<lparr>NonceCount := 1\<rparr>))) (Cnonce testInput)
                  (spec_HA2 (Method (testInput\<lparr>NonceCount := 1\<rparr>)) (DigestURI (testInput\<lparr>NonceCount := 1\<rparr>)))
        = ''639f9031211b1b7b9cfbabe9e0a7fd44''"
    by (simp add: testChallenge_def testInput_def fmt_08x_one)
  ultimately show ?thesis using h by simp
qed

section \<open>Properties of the challenge parser\<close>

text \<open>When \<^verbatim>\<open>strconv.Unquote\<close> returns an error, the string it returns is empty.\<close>

lemma unquoteLoop_error: "snd (unquoteLoop s q buf) \<noteq> None \<Longrightarrow> fst (unquoteLoop s q buf) = []"
  by (induction s q buf rule: unquoteLoop.induct) (auto split: sum.splits prod.splits if_splits)

lemma Unquote_error: "snd (Unquote s) \<noteq> None \<Longrightarrow> fst (Unquote s) = []"
  by (auto simp: Unquote_def Let_def unquoteLoop_error split: if_splits)

lemma parseDigest_ok:
  "HasPrefix entry ''Digest '' \<Longrightarrow> \<exists>dkeys. parseDigest entry = Inr dkeys"
  by (simp add: parseDigest_def HasPrefix_def Let_def)

text \<open>
  Claim C10.  Once the input has passed the prefix test of \<^verbatim>\<open>ParseWWWAuthenticate\<close>,
  parsing succeeds: no error and no panic can follow.  When the value of a pair starts
  with a double quote and \<^verbatim>\<open>strconv.Unquote\<close> rejects it, the error is dropped and the
  field is stored as the empty string; an unterminated quote and an invalid escape
  sequence are two such values.
\<close>

theorem parse_never_fails_after_prefix:
  "(HasPrefix (TrimSpace entry) ''Digest '' \<longrightarrow> (\<exists>wwwa. ParseWWWAuthenticate entry = Inr wwwa))
   \<and> (HasPrefix (pd_val p) [dquote] \<and> snd (Unquote (pd_val p)) \<noteq> None \<longrightarrow>
        storePair p = (pd_keys p)(TrimSpace (pd_key p) \<mapsto> []))
   \<and> snd (Unquote (dquote # ''abc'')) = Some ErrSyntax
   \<and> ParseWWWAuthenticate (''Digest realm='' @ dquote # ''abc'') =
        Inr \<lparr>Realm = [], Domain = [], Nonce = [], Opaque = [], Stale = [], Algorithm = [], Qop = []\<rparr>
   \<and> snd (Unquote (dquote # ''a'' @ bslash # ''qb'' @ [dquote])) = Some ErrSyntax
   \<and> ParseWWWAuthenticate (''Digest realm='' @ dquote # ''a'' @ bslash # ''qb'' @ dquote # '',nonce=n'') =
        Inr \<lparr>Realm = [], Domain = [], Nonce = ''n'', Opaque = [], Stale = [], Algorithm = [], Qop = []\<rparr>"
proof (intro conjI impI)
  assume "HasPrefix (TrimSpace entry) ''Digest ''"
  then show "\<exists>wwwa. ParseWWWAuthenticate entry = Inr wwwa"
    using parseDigest_ok [of "TrimSpace entry"]
    by (auto simp: ParseWWWAuthenticate_def Let_def)
next
  assume "HasPrefix (pd_val p) [dquote] \<and> snd (Unquote (pd_val p)) \<noteq> None"
  then show "storePair p = (pd_keys p)(TrimSpace (pd_key p) \<mapsto> [])"
    by (simp add: storePair_def Let_def Unquote_error)
next
  show "snd (Unquote (dquote # ''abc'')) = Some ErrSyntax" by code_simp
  show "ParseWWWAuthenticate (''Digest realm='' @ dquote # ''abc'') =
        Inr \<lparr>Realm = [], Domain = [], Nonce = [], Opaque = [], Stale = [], Algorithm = [], Qop = []\<rparr>"
    by code_simp
  show "snd (Unquote (dquote # ''a'' @ bslash # ''qb'' @ [dquote])) = Some ErrSyntax" by code_simp
  show "ParseWWWAuthenticate (''Digest realm='' @ dquote # ''a'' @ bslash # ''qb'' @ dquote # '',nonce=n'') =
        Inr \<lparr>Realm = [], Domain = [], Nonce = ''n'', Opaque = [], Stale = [], Algorithm = [], Qop = []\<rparr>"
    by code_simp
qed

theorem parse_never_fails_after_prefix_witness:
  "HasPrefix (TrimSpace testHeader) ''Digest ''
   \<and> (\<exists>wwwa. ParseWWWAuthenticate testHeader = Inr wwwa)
   \<and> storePair (pd_init\<lparr>pd_key := ''realm'', pd_val := dquote # ''abc''\<rparr>) = [''realm'' \<mapsto> []]"
proof -
  have a: "HasPrefix (TrimSpace testHeader) ''Digest ''" by code_simp
  have b: "HasPrefix (pd_val (pd_init\<lparr>pd_key := ''realm'', pd_val := dquote # ''abc''\<rparr>)) [dquote]"
    by (simp add: HasPrefix_def)
  have c: "snd (Unquote (pd_val (pd_init\<lparr>pd_key := ''realm'', pd_val := dquote # ''abc''\<rparr>))) \<noteq> None"
    using parse_never_fails_after_prefix [of "[]" pd_init] by simp
  have d: "TrimSpace ''realm'' = ''realm''" by code_simp
  from parse_never_fails_after_prefix [of testHeader "pd_init\<lparr>pd_key := ''realm'', pd_val := dquote # ''abc''\<rparr>"] a b c d
  show ?thesis by (simp add: pd_init_def)
qed

text \<open>
  Claim C8 says that a challenge is produced only if the input begins with \<open>Digest \<close>.
  The parser trims the input first, so an input with white space in front of the scheme
  is accepted although it does not begin with the scheme.
\<close>

theorem prefix_check_counterexample:
  "ParseWWWAuthenticate '' Digest realm=x'' =
     Inr \<lparr>Realm = ''x'', Domain = [], Nonce = [], Opaque = [], Stale = [], Algorithm = [], Qop = []\<rparr>
   \<and> \<not> HasPrefix '' Digest realm=x'' ''Digest ''"
  by code_simp

text \<open>
  Claim C8, amended.  A challenge is produced exactly when the input, with its leading and
  trailing white space removed, begins with \<open>Digest \<close> (case-sensitive, with the space
  after the scheme); otherwise the parser fails at once with the error "bad challenge",
  which carries the trimmed input, and no challenge is produced.
\<close>

theorem prefix_check_after_trim:
  "((\<exists>wwwa. ParseWWWAuthenticate entry = Inr wwwa) \<longleftrightarrow> HasPrefix (TrimSpace entry) ''Digest '')
   \<and> (\<not> HasPrefix (TrimSpace entry) ''Digest '' \<longrightarrow>
        ParseWWWAuthenticate entry = Inl (ErrBadChallenge (TrimSpace entry)))"
  using parseDigest_ok [of "TrimSpace entry"]
  by (auto simp: ParseWWWAuthenticate_def Let_def)

theorem prefix_check_after_trim_witness:
  "\<not> HasPrefix (TrimSpace ''digest realm=x'') ''Digest ''
   \<and> ParseWWWAuthenticate ''digest realm=x'' = Inl (ErrBadChallenge ''digest realm=x'')
   \<and> \<not> HasPrefix (TrimSpace ''Digest '') ''Digest ''
   \<and> ParseWWWAuthenticate ''Digest '' = Inl (ErrBadChallenge ''Digest'')"
proof -
  have a: "TrimSpace ''digest realm=x'' = ''digest realm=x''" by code_simp
  have b: "TrimSpace ''Digest '' = ''Digest''" by code_simp
  have c: "\<not> HasPrefix ''digest realm=x'' ''Digest ''" "\<not> HasPrefix ''Digest'' ''Digest ''"
    by (simp_all add: HasPrefix_def)
  from prefix_check_after_trim [of "''digest realm=x''"] prefix_check_after_trim [of "''Digest ''"] a b c
  show ?thesis by simp
qed

text \<open>
  Claim C4.  The tokenizer counts the backslashes in \<open>backq\<close> and resets the count at
  every other character, except at a comma inside quotes.  After a backslash and a quoted
  comma the count is therefore stale.  In \<open>realm="\,",nonce=abc\<close> the second quote has
  no backslash in front of it and yet does not close the quotes: the rest of the input is
  taken into the value of realm and nonce is lost.  In \<open>realm="\,\",nonce=abc\<close> the
  second quote has one backslash in front of it and yet closes the quotes.  The pair
  \<open>realm="a,b"\<close> is read as one field with the value \<open>a,b\<close>.
\<close>

theorem tokenizer_backslash_count:
  "pd_quote (parseLoop pd_init (map fst (runes (''realm='' @ dquote # bslash # '','' @ [dquote])))) = True
   \<and> ParseWWWAuthenticate (''Digest realm='' @ dquote # bslash # '','' @ dquote # '',nonce=abc'') =
        Inr \<lparr>Realm = [], Domain = [], Nonce = [], Opaque = [], Stale = [], Algorithm = [], Qop = []\<rparr>
   \<and> pd_quote (parseLoop pd_init (map fst (runes (''realm='' @ dquote # bslash # '','' @ [bslash, dquote])))) = False
   \<and> ParseWWWAuthenticate (''Digest realm='' @ dquote # bslash # '','' @ bslash # dquote # '',nonce=abc'') =
        Inr \<lparr>Realm = [], Domain = [], Nonce = ''abc'', Opaque = [], Stale = [], Algorithm = [], Qop = []\<rparr>
   \<and> ParseWWWAuthenticate (''Digest realm='' @ dquote # ''a,b'' @ [dquote]) =
        Inr \<lparr>Realm = ''a,b'', Domain = [], Nonce = [], Opaque = [], Stale = [], Algorithm = [], Qop = []\<rparr>"
  by code_simp

section \<open>Properties of the transports\<close>

text \<open>
  Claim C1.  \<^verbatim>\<open>doAuthRequest\<close> returns a probe response whose status is not 401 as it
  is, but \<^verbatim>\<open>RoundTrip\<close> does not return it to the caller: it reads a challenge from its
  \<^verbatim>\<open>WWW-Authenticate\<close> header whatever the status is.  When the response has no such
  header, as the response of a server that needs no authentication, \<^verbatim>\<open>RoundTrip\<close>
  returns the error "bad challenge" and no response.
\<close>

theorem probe_response_is_parsed:
  assumes "t_Transport t = Some rt" and "t_CnonceGen t = Some gen"
    and "doAuthRequest t s req = (Inr resp, s', req')"
    and "StatusCode resp \<noteq> 401"
    and "Header_Get (resp_Header resp) ''WWW-Authenticate'' = []"
  shows "RoundTrip tbl t s req = (Inl (ErrBadChallenge []), s', req')"
proof -
  have "TrimSpace [] = []" by (simp add: TrimSpace_def)
  then have "ParseWWWAuthenticate [] = Inl (ErrBadChallenge [])"
    by (simp add: ParseWWWAuthenticate_def HasPrefix_def)
  with assms show ?thesis by (simp add: RoundTrip_def)
qed

theorem probe_response_is_parsed_witness:
  "doAuthRequest (New ''john'' ''hello'' plainServer) \<lparr>world = 0, rand = [], cache = Map.empty\<rparr> getRequest =
     (Inr \<lparr>StatusCode = 200, resp_Header = Map.empty, resp_Body = NopCloser ''Hello''\<rparr>,
      \<lparr>world = 1, rand = [], cache = Map.empty\<rparr>, getRequest)
   \<and> RoundTrip (\<lambda>r. False) (New ''john'' ''hello'' plainServer) \<lparr>world = 0, rand = [], cache = Map.empty\<rparr> getRequest =
     (Inl (ErrBadChallenge []), \<lparr>world = 1, rand = [], cache = Map.empty\<rparr>, getRequest)"
proof -
  have d: "doAuthRequest (New ''john'' ''hello'' plainServer) \<lparr>world = 0, rand = [], cache = Map.empty\<rparr> getRequest =
     (Inr \<lparr>StatusCode = 200, resp_Header = Map.empty, resp_Body = NopCloser ''Hello''\<rparr>,
      \<lparr>world = 1, rand = [], cache = Map.empty\<rparr>, getRequest)"
    by (simp add: doAuthRequest_def New_def plainServer_def getRequest_def Let_def)
  from probe_response_is_parsed [OF _ _ d, of plainServer "\<lambda>w. ([], w)" "\<lambda>r. False"] d
  show ?thesis by (simp add: New_def Header_Get_def)
qed

text \<open>On the qop=auth path with a supported algorithm the engine produces a header.\<close>

lemma Digest_succeeds:
  assumes "''auth'' \<in> set (Split (Qop a) CHR '','')"
    and "Algorithm a = [] \<or> Algorithm a = ''MD5'' \<or> Algorithm a = ''MD5-sess''"
  shows "\<exists>authh e'. Digest tbl a inp e = (Inr authh, e')"
proof -
  define nc where "nc = (if NonceCount inp = 0 then 1 else NonceCount inp)"
  from assms(2) obtain h1 where "ha1 a (inp\<lparr>NonceCount := nc\<rparr>) = Inr h1"
    by (auto simp: ha1_def)
  from Digest_auth_path [OF assms(1) nc_def this refl] show ?thesis by blast
qed

text \<open>
  Claim C2 says that after a 401 for a challenge taken from the cache the whole procedure
  is always repeated once.  When the request has a body and its \<^verbatim>\<open>GetBody\<close> fails,
  \<^verbatim>\<open>CachedTransport.RoundTrip\<close> returns the error of \<^verbatim>\<open>GetBody\<close> instead: the server is
  asked once and the procedure is not repeated.
\<close>

theorem stale_cache_retry_counterexample:
  "cache staleState (cacheKey (NewCached ''john'' ''hello'' rejectingServer (\<lambda>k. True)) postRequest)
     = Some testChallenge
   \<and> fst (authorizedRoundTrip (\<lambda>r. False) (NewCached ''john'' ''hello'' rejectingServer (\<lambda>k. True))
            rejectingServer (\<lambda>w. ([], w)) testChallenge staleState postRequest) = Inr rejected
   \<and> StatusCode rejected = 401
   \<and> fst (CachedTransport_RoundTrip (\<lambda>r. False) (NewCached ''john'' ''hello'' rejectingServer (\<lambda>k. True))
            staleState postRequest) = Inl (ErrExternal ''body is gone'')
   \<and> world (fst (snd (CachedTransport_RoundTrip (\<lambda>r. False)
            (NewCached ''john'' ''hello'' rejectingServer (\<lambda>k. True)) staleState postRequest))) = 1"
proof -
  let ?t = "NewCached ''john'' ''hello'' rejectingServer (\<lambda>k. True) :: nat CachedTransport"
  let ?tbl = "\<lambda>r::rune. False"
  let ?gen = "\<lambda>w::nat. ([]::string, w)"
  let ?inpP = "\<lparr>Username = ''john'', Password = ''hello'', DigestURI = ''/'', NonceCount = 0,
                Cnonce = [], Method = ''POST''\<rparr>"
  have key: "cacheKey ?t postRequest = ''127.0.0.1,john,hello''"
    by (simp add: cacheKey_def NewCached_def postRequest_def)
  have t: "t_Transport ?t = Some rejectingServer" "t_CnonceGen ?t = Some ?gen"
    "authCache ?t = Some (\<lambda>k. True)" "t_Username ?t = ''john''" "t_Password ?t = ''hello''"
    by (simp_all add: NewCached_def)
  have c: "cache staleState (cacheKey ?t postRequest) = Some testChallenge"
    by (simp add: key staleState_def)
  have ok: "''auth'' \<in> set (Split (Qop testChallenge) CHR '','')"
    "Algorithm testChallenge = [] \<or> Algorithm testChallenge = ''MD5''
       \<or> Algorithm testChallenge = ''MD5-sess''"
    by (simp_all add: testChallenge_def)
  from Digest_succeeds [OF ok, of ?tbl ?inpP "[]"] obtain authhP eP where
    dP: "Digest ?tbl testChallenge ?inpP [] = (Inr authhP, eP)" by blast
  define sP :: "nat State" where "sP = staleState\<lparr>world := 1, rand := eP\<rparr>"
  define reqP where
    "reqP = postRequest\<lparr>req_Header := Header_Set (req_Header postRequest) ''Authorization'' authhP,
                        req_Body := Some (readAll (NopCloser ''{}''))\<rparr>"
  have aP: "authorizedRoundTrip ?tbl ?t rejectingServer ?gen testChallenge staleState postRequest
              = (Inr rejected, sP, reqP)"
    by (simp add: authorizedRoundTrip_def t dP staleState_def postRequest_def rejectingServer_def
        rejected_def sP_def reqP_def Let_def)
  have st: "StatusCode rejected = 401" by (simp add: rejected_def)
  have "roundTripPass ?tbl ?t staleState postRequest =
          Return (Inl (ErrExternal ''body is gone''),
                  sP\<lparr>cache := (cache staleState)(cacheKey ?t postRequest := None)\<rparr>,
                  reqP\<lparr>req_Header := Header_Del (req_Header reqP) ''Authorization'', req_Body := None\<rparr>)"
    unfolding roundTripPass_hit [OF t(1) t(2) t(3) c, of ?tbl] aP
    by (simp add: st Let_def reqP_def sP_def postRequest_def)
  then have "CachedTransport_RoundTrip ?tbl ?t staleState postRequest =
          (Inl (ErrExternal ''body is gone''),
                  sP\<lparr>cache := (cache staleState)(cacheKey ?t postRequest := None)\<rparr>,
                  reqP\<lparr>req_Header := Header_Del (req_Header reqP) ''Authorization'', req_Body := None\<rparr>)"
    by (subst CachedTransport_RoundTrip.simps) simp
  with c aP st show ?thesis by (simp add: sP_def)
qed

text \<open>
  Claim C2, amended.  Let the challenge come from the cache and let the authenticated
  request come back with status 401.  The transport deletes the entry of the cache and
  removes the \<^verbatim>\<open>Authorization\<close> header.  When the request has a body and a \<^verbatim>\<open>GetBody\<close>,
  it calls \<^verbatim>\<open>GetBody\<close>: if that fails, its error is returned and nothing is repeated;
  otherwise the body of the request becomes the fresh reader.  In every other case the
  whole procedure is repeated for the same request.  The repeated pass starts from a miss
  in the cache and always returns, whatever the status of its response is, so the
  procedure is repeated at most once and the recursion ends.
\<close>

theorem stale_cache_retry_once:
  assumes "t_Transport t = Some rt" and "t_CnonceGen t = Some gen"
    and "authCache t = Some admit" and "cache s (cacheKey t req) = Some chal"
    and "authorizedRoundTrip tbl t rt gen chal s req = (Inr resp, s1, req1)"
    and "StatusCode resp = 401"
  shows "(\<forall>b e. req_Body req \<noteq> None \<and> req_GetBody req = Some (b, Some e) \<longrightarrow>
            CachedTransport_RoundTrip tbl t s req =
              (Inl e, s1\<lparr>cache := (cache s)(cacheKey t req := None)\<rparr>,
               req1\<lparr>req_Header := Header_Del (req_Header req1) ''Authorization'', req_Body := b\<rparr>))
       \<and> (\<not> (\<exists>b e. req_Body req \<noteq> None \<and> req_GetBody req = Some (b, Some e)) \<longrightarrow>
            (\<exists>s' req'.
               roundTripPass tbl t s req = Again s' req'
               \<and> s' = s1\<lparr>cache := (cache s)(cacheKey t req := None)\<rparr>
               \<and> req' = req1\<lparr>req_Header := Header_Del (req_Header req1) ''Authorization'',
                             req_Body := (case (req_Body req, req_GetBody req) of
                                            (Some body, Some (b, err)) \<Rightarrow> b
                                          | _ \<Rightarrow> req_Body req1)\<rparr>
               \<and> \<not> cacheHit t s' req'
               \<and> (\<exists>r. roundTripPass tbl t s' req' = Return r
                       \<and> CachedTransport_RoundTrip tbl t s req = r)))"
proof (intro conjI allI impI)
  note hit = roundTripPass_hit [OF assms(1-4), of tbl]
  note keeps = authorizedRoundTrip_keeps [OF assms(5)]
  fix b e
  assume h: "req_Body req \<noteq> None \<and> req_GetBody req = Some (b, Some e)"
  from keeps h obtain body where b1: "req_Body req1 = Some body" by auto
  from keeps h have g1: "req_GetBody req1 = Some (b, Some e)" by simp
  from keeps have c1: "cache s1 = cache s" by simp
  have "roundTripPass tbl t s req =
          Return (Inl e, s1\<lparr>cache := (cache s)(cacheKey t req := None)\<rparr>,
               req1\<lparr>req_Header := Header_Del (req_Header req1) ''Authorization'', req_Body := b\<rparr>)"
    unfolding hit assms(5) by (simp add: assms(6) Let_def b1 g1 c1)
  then show "CachedTransport_RoundTrip tbl t s req =
              (Inl e, s1\<lparr>cache := (cache s)(cacheKey t req := None)\<rparr>,
               req1\<lparr>req_Header := Header_Del (req_Header req1) ''Authorization'', req_Body := b\<rparr>)"
    by (subst CachedTransport_RoundTrip.simps) simp
next
  note hit = roundTripPass_hit [OF assms(1-4), of tbl]
  note keeps = authorizedRoundTrip_keeps [OF assms(5)]
  define s' where "s' = s1\<lparr>cache := (cache s)(cacheKey t req := None)\<rparr>"
  define req' where "req' = req1\<lparr>req_Header := Header_Del (req_Header req1) ''Authorization'',
                             req_Body := (case (req_Body req, req_GetBody req) of
                                            (Some body, Some (b, err)) \<Rightarrow> b
                                          | _ \<Rightarrow> req_Body req1)\<rparr>"
  assume a: "\<not> (\<exists>b e. req_Body req \<noteq> None \<and> req_GetBody req = Some (b, Some e))"
  from keeps have c1: "cache s1 = cache s" and g1: "req_GetBody req1 = req_GetBody req" by simp_all
  have "roundTripPass tbl t s req = Again s' req'"
  proof (cases "req_Body req")
    case None
    with keeps have b1: "req_Body req1 = None" by simp
    show ?thesis
      unfolding hit assms(5) by (simp add: assms(6) Let_def b1 g1 c1 None s'_def req'_def)
  next
    case (Some body)
    with keeps obtain body1 where b1: "req_Body req1 = Some body1" by auto
    show ?thesis
    proof (cases "req_GetBody req")
      case None
      show ?thesis
        unfolding hit assms(5)
        by (simp add: assms(6) Let_def b1 g1 c1 None Some s'_def req'_def)
    next
      case (Some g)
      with a \<open>req_Body req = Some body\<close> obtain b where gb: "req_GetBody req = Some (b, None)"
        by (cases g) auto
      show ?thesis
        unfolding hit assms(5)
        by (simp add: assms(6) Let_def b1 g1 c1 gb \<open>req_Body req = Some body\<close> s'_def req'_def)
    qed
  qed
  then have p: "roundTripPass tbl t s req = Again s' req'" .
  from roundTripPass_Again [OF p] have m: "\<not> cacheHit t s' req'" by simp
  from roundTripPass_miss [OF this, of tbl] obtain r where r: "roundTripPass tbl t s' req' = Return r"
    by blast
  have "CachedTransport_RoundTrip tbl t s req = CachedTransport_RoundTrip tbl t s' req'"
    by (subst CachedTransport_RoundTrip.simps) (simp add: p)
  also have "\<dots> = r"
    by (subst CachedTransport_RoundTrip.simps) (simp add: r)
  finally have "CachedTransport_RoundTrip tbl t s req = r" .
  with p m r show "\<exists>s' req'.
               roundTripPass tbl t s req = Again s' req'
               \<and> s' = s1\<lparr>cache := (cache s)(cacheKey t req := None)\<rparr>
               \<and> req' = req1\<lparr>req_Header := Header_Del (req_Header req1) ''Authorization'',
                             req_Body := (case (req_Body req, req_GetBody req) of
                                            (Some body, Some (b, err)) \<Rightarrow> b
                                          | _ \<Rightarrow> req_Body req1)\<rparr>
               \<and> \<not> cacheHit t s' req'
               \<and> (\<exists>r. roundTripPass tbl t s' req' = Return r
                       \<and> CachedTransport_RoundTrip tbl t s req = r)"
    unfolding s'_def req'_def by blast
qed

theorem stale_cache_retry_once_witness:
  "cache staleState (cacheKey (NewCached ''john'' ''hello'' rejectingServer (\<lambda>k. True)) getRequest)
     = Some testChallenge
   \<and> fst (CachedTransport_RoundTrip (\<lambda>r. False) (NewCached ''john'' ''hello'' rejectingServer (\<lambda>k. True))
            staleState getRequest) = Inr rejected
   \<and> world (fst (snd (CachedTransport_RoundTrip (\<lambda>r. False)
            (NewCached ''john'' ''hello'' rejectingServer (\<lambda>k. True)) staleState getRequest))) = 3
   \<and> fst (CachedTransport_RoundTrip (\<lambda>r. False) (NewCached ''john'' ''hello'' rejectingServer (\<lambda>k. True))
            staleState postRequest) = Inl (ErrExternal ''body is gone'')"
proof -
  let ?t = "NewCached ''john'' ''hello'' rejectingServer (\<lambda>k. True) :: nat CachedTransport"
  let ?tbl = "\<lambda>r::rune. False"
  let ?gen = "\<lambda>w::nat. ([]::string, w)"
  let ?inp = "\<lparr>Username = ''john'', Password = ''hello'', DigestURI = ''/'', NonceCount = 0,
                Cnonce = [], Method = ''GET''\<rparr>"
  let ?inpP = "\<lparr>Username = ''john'', Password = ''hello'', DigestURI = ''/'', NonceCount = 0,
                Cnonce = [], Method = ''POST''\<rparr>"
  have key: "cacheKey ?t getRequest = ''127.0.0.1,john,hello''"
    "cacheKey ?t postRequest = ''127.0.0.1,john,hello''"
    by (simp_all add: cacheKey_def NewCached_def getRequest_def postRequest_def)
  have t: "t_Transport ?t = Some rejectingServer" "t_CnonceGen ?t = Some ?gen"
    "authCache ?t = Some (\<lambda>k. True)" "t_Username ?t = ''john''" "t_Password ?t = ''hello''"
    by (simp_all add: NewCached_def)
  have c: "cache staleState (cacheKey ?t getRequest) = Some testChallenge"
    "cache staleState (cacheKey ?t postRequest) = Some testChallenge"
    by (simp_all add: key staleState_def)
  have ok: "''auth'' \<in> set (Split (Qop testChallenge) CHR '','')"
    "Algorithm testChallenge = [] \<or> Algorithm testChallenge = ''MD5''
       \<or> Algorithm testChallenge = ''MD5-sess''"
    by (simp_all add: testChallenge_def)
  from Digest_succeeds [OF ok, of ?tbl ?inp "[]"] obtain authh e1 where
    d1: "Digest ?tbl testChallenge ?inp [] = (Inr authh, e1)" by blast
  from Digest_succeeds [OF ok, of ?tbl ?inp e1] obtain authh2 e2 where
    d2: "Digest ?tbl testChallenge ?inp e1 = (Inr authh2, e2)" by blast
  from Digest_succeeds [OF ok, of ?tbl ?inpP "[]"] obtain authhP eP where
    dP: "Digest ?tbl testChallenge ?inpP [] = (Inr authhP, eP)" by blast
  define s1 :: "nat State" where "s1 = staleState\<lparr>world := 1, rand := e1\<rparr>"
  define req1 where
    "req1 = getRequest\<lparr>req_Header := Header_Set (req_Header getRequest) ''Authorization'' authh\<rparr>"
  have a1: "authorizedRoundTrip ?tbl ?t rejectingServer ?gen testChallenge staleState getRequest
              = (Inr rejected, s1, req1)"
    by (simp add: authorizedRoundTrip_def t d1 staleState_def getRequest_def rejectingServer_def
        rejected_def s1_def req1_def Let_def)
  have st: "StatusCode rejected = 401" by (simp add: rejected_def)
  have nb: "\<not> (\<exists>b e. req_Body getRequest \<noteq> None \<and> req_GetBody getRequest = Some (b, Some e))"
    by (simp add: getRequest_def)
  define s' where "s' = s1\<lparr>cache := (cache staleState)(cacheKey ?t getRequest := None)\<rparr>"
  define req' where
    "req' = req1\<lparr>req_Header := Header_Del (req_Header req1) ''Authorization'',
                 req_Body := (case (req_Body getRequest, req_GetBody getRequest) of
                                (Some body, Some (b, err)) \<Rightarrow> b
                              | _ \<Rightarrow> req_Body req1)\<rparr>"
  from stale_cache_retry_once [OF t(1) t(2) t(3) c(1) a1 st] nb
  obtain r where r: "roundTripPass ?tbl ?t s' req' = Return r"
    and res: "CachedTransport_RoundTrip ?tbl ?t staleState getRequest = r"
    unfolding s'_def req'_def by blast
  have s'_eq: "s' = \<lparr>world = 1, rand = e1, cache = Map.empty\<rparr>"
    by (simp add: s'_def s1_def staleState_def key)
  have req'_eq: "req' = getRequest"
    by (simp add: req'_def req1_def getRequest_def Header_Del_def Header_Set_def)
  have "roundTripPass ?tbl ?t s' req' =
          Return (Inr rejected,
                  \<lparr>world = 3, rand = e2, cache = [''127.0.0.1,john,hello'' \<mapsto> testChallenge]\<rparr>,
                  getRequest\<lparr>req_Header := Header_Set (req_Header getRequest) ''Authorization'' authh2\<rparr>)"
    unfolding s'_eq req'_eq
    apply (simp add: roundTripPass_def t key Let_def)
    apply (simp add: doAuthRequest_def t getRequest_def rejectingServer_def Let_def Header_Get_def
        test_parse authorizedRoundTrip_def d2 [unfolded getRequest_def] rejected_def NopCloser_def)
    done
  with r have r_eq: "r = (Inr rejected,
                  \<lparr>world = 3, rand = e2, cache = [''127.0.0.1,john,hello'' \<mapsto> testChallenge]\<rparr>,
                  getRequest\<lparr>req_Header := Header_Set (req_Header getRequest) ''Authorization'' authh2\<rparr>)"
    by simp
  define sP :: "nat State" where "sP = staleState\<lparr>world := 1, rand := eP\<rparr>"
  define reqP where
    "reqP = postRequest\<lparr>req_Header := Header_Set (req_Header postRequest) ''Authorization'' authhP,
                        req_Body := Some (readAll (NopCloser ''{}''))\<rparr>"
  have aP: "authorizedRoundTrip ?tbl ?t rejectingServer ?gen testChallenge staleState postRequest
              = (Inr rejected, sP, reqP)"
    by (simp add: authorizedRoundTrip_def t dP staleState_def postRequest_def rejectingServer_def
        rejected_def sP_def reqP_def Let_def)
  have gb: "req_Body postRequest \<noteq> None
            \<and> req_GetBody postRequest = Some (None, Some (ErrExternal ''body is gone''))"
    by (simp add: postRequest_def)
  from stale_cache_retry_once [OF t(1) t(2) t(3) c(2) aP st] gb
  have "fst (CachedTransport_RoundTrip ?tbl ?t staleState postRequest) = Inl (ErrExternal ''body is gone'')"
    by simp
  with res r_eq c show ?thesis by simp
qed

end
